theory Spec2Isabelle
  imports Complex_Main "HOL-Library.Char_ord" "HOL-Library.List_Lexorder"
begin

section \<open>Data model of \<^verbatim>\<open>main.py\<close>\<close>

text \<open>
  The enumerations of the source with their string values, the three dataclasses and the
  attributes of \<^verbatim>\<open>ZeroTrustNetworkSimulator\<close>.

  Python floats are modelled as exact reals: a score written \<^verbatim>\<open>0.3\<close> is the real
  \<open>3/10\<close>, so the arithmetic of the evaluator below is the arithmetic the source
  intends, without the rounding of binary floating point. What is proved of it does not
  depend on that rounding. The numbers the evaluator returns do: for them the evaluator
  is given a second time, with its roundings, in a later section.

  A Python \<^verbatim>\<open>dict\<close> is an association list in insertion order (no key twice), a Python
  \<^verbatim>\<open>set\<close> is the list of its elements in the order in which the interpreter iterates
  over it (no element twice). That order is not specified by Python, so nothing below
  depends on it: every statement about neighbours holds for every state.
\<close>

datatype DeviceType = ROUTER | SERVER | WORKSTATION | MOBILE | IOT

datatype AccessDecision = ALLOW | DENY | CHALLENGE

datatype SecurityModel = ZEROTRUST | TRADITIONAL

fun DeviceType_value :: "DeviceType \<Rightarrow> string" where
  "DeviceType_value ROUTER = ''router''"
| "DeviceType_value SERVER = ''server''"
| "DeviceType_value WORKSTATION = ''workstation''"
| "DeviceType_value MOBILE = ''mobile''"
| "DeviceType_value IOT = ''iot''"

fun AccessDecision_value :: "AccessDecision \<Rightarrow> string" where
  "AccessDecision_value ALLOW = ''allowed''"
| "AccessDecision_value DENY = ''denied''"
| "AccessDecision_value CHALLENGE = ''challenged''"

fun SecurityModel_value :: "SecurityModel \<Rightarrow> string" where
  "SecurityModel_value ZEROTRUST = ''zerotrust''"
| "SecurityModel_value TRADITIONAL = ''traditional''"

text \<open>The display position \<^verbatim>\<open>x\<close>, \<^verbatim>\<open>y\<close> of a device is \<open>pos_x\<close>, \<open>pos_y\<close> here.\<close>

record Device =
  device_id :: string
  device_type :: DeviceType
  ip_address :: string
  trust_score :: real
  is_compromised :: bool
  location :: string
  pos_x :: real
  pos_y :: real

record User =
  user_id :: string
  name :: string
  role :: string
  risk_score :: real
  department :: string

text \<open>The fields \<^verbatim>\<open>user_id\<close> and \<^verbatim>\<open>device_id\<close> of a request are \<open>req_user_id\<close> and
  \<open>req_device_id\<close>.\<close>

record AccessRequest =
  req_user_id :: string
  req_device_id :: string
  resource :: string
  action :: string
  timestamp :: real

record ActivityStats =
  allowed :: int
  denied :: int
  challenged :: int
  total_requests :: int

record Simulator =
  devices :: "(string \<times> Device) list"
  users :: "(string \<times> User) list"
  network_graph :: "(string \<times> string list) list"
  activity_stats :: ActivityStats
  attack_sessions :: "(string \<times> (string \<times> string) list) list"

text \<open>The exceptions a run of the engine can end in: a missing dictionary key,
  \<^verbatim>\<open>random.choice\<close> on an empty sequence, a timestamp that
  \<^verbatim>\<open>datetime.fromtimestamp\<close> cannot convert, and a division by zero.\<close>

datatype py_error = KeyError string | IndexError | TimestampError | ZeroDivisionError

subsection \<open>Dictionaries and sets\<close>

text \<open>\<^verbatim>\<open>d[k] = v\<close>: an existing key keeps its place, a new key goes last.\<close>

fun dict_set :: "('k \<times> 'v) list \<Rightarrow> 'k \<Rightarrow> 'v \<Rightarrow> ('k \<times> 'v) list" where
  "dict_set [] k v = [(k, v)]"
| "dict_set ((k', v') # kvs) k v =
     (if k' = k then (k, v) # kvs else (k', v') # dict_set kvs k v)"

text \<open>\<^verbatim>\<open>s.add(a)\<close>.\<close>

definition set_add :: "'a list \<Rightarrow> 'a \<Rightarrow> 'a list" where
  "set_add xs a = (if a \<in> set xs then xs else xs @ [a])"

text \<open>\<^verbatim>\<open>self.network_graph[k]\<close> on the \<^verbatim>\<open>defaultdict(set)\<close>: a missing key is
  inserted with the empty set, so the read returns the graph as well.\<close>

definition graph_get ::
  "(string \<times> string list) list \<Rightarrow> string \<Rightarrow> string list \<times> (string \<times> string list) list" where
  "graph_get g k = (case map_of g k of Some ns \<Rightarrow> (ns, g) | None \<Rightarrow> ([], g @ [(k, [])]))"

text \<open>\<^verbatim>\<open>self.network_graph[a].add(b)\<close>.\<close>

definition graph_add ::
  "(string \<times> string list) list \<Rightarrow> string \<Rightarrow> string \<Rightarrow> (string \<times> string list) list" where
  "graph_add g a b = (case graph_get g a of (ns, g') \<Rightarrow> dict_set g' a (set_add ns b))"

text \<open>\<^verbatim>\<open>self.devices[k].is_compromised = v\<close>, for a key \<open>k\<close> of the dictionary: the device
  object is changed in place.\<close>

definition set_compromised :: "(string \<times> Device) list \<Rightarrow> string \<Rightarrow> bool \<Rightarrow> (string \<times> Device) list" where
  "set_compromised ds k v =
     map (\<lambda>(k', d). if k' = k then (k', d\<lparr>is_compromised := v\<rparr>) else (k', d)) ds"

subsection \<open>Construction: \<^verbatim>\<open>__init__\<close> and \<^verbatim>\<open>_initialize_network\<close>\<close>

definition devices_config :: "(string \<times> DeviceType \<times> string \<times> real \<times> real \<times> real) list" where
  "devices_config =
    [(''firewall-01'', ROUTER, ''192.168.1.1'', 0.95, 400, 100),
     (''dc-server-01'', SERVER, ''192.168.1.10'', 0.9, 300, 200),
     (''db-server-01'', SERVER, ''192.168.1.11'', 0.85, 500, 200),
     (''ws-finance-01'', WORKSTATION, ''192.168.2.10'', 0.8, 200, 300),
     (''ws-finance-02'', WORKSTATION, ''192.168.2.11'', 0.9, 350, 350),
     (''ws-hr-01'', WORKSTATION, ''192.168.2.20'', 0.7, 450, 350),
     (''ws-it-01'', WORKSTATION, ''192.168.2.30'', 0.95, 600, 300),
     (''mobile-ceo'', MOBILE, ''10.0.1.5'', 0.8, 100, 400),
     (''printer-01'', IOT, ''192.168.3.10'', 0.4, 700, 400)]"

definition connections :: "(string \<times> string) list" where
  "connections =
    [(''firewall-01'', ''dc-server-01''),
     (''firewall-01'', ''db-server-01''),
     (''firewall-01'', ''ws-finance-01''),
     (''firewall-01'', ''ws-finance-02''),
     (''firewall-01'', ''ws-hr-01''),
     (''firewall-01'', ''ws-it-01''),
     (''firewall-01'', ''mobile-ceo''),
     (''firewall-01'', ''printer-01''),
     (''dc-server-01'', ''db-server-01''),
     (''ws-finance-01'', ''ws-finance-02'')]"

definition users_config :: "(string \<times> string \<times> string \<times> real \<times> string) list" where
  "users_config =
    [(''alice.finance'', ''Alice Johnson'', ''CFO'', 0.3, ''finance''),
     (''bob.it'', ''Bob Wilson'', ''IT Admin'', 0.2, ''it''),
     (''carol.hr'', ''Carol Brown'', ''HR Manager'', 0.4, ''hr''),
     (''dave.sales'', ''Dave Miller'', ''Sales Rep'', 0.5, ''sales''),
     (''eve.contractor'', ''Eve Davis'', ''Contractor'', 0.8, ''external''),
     (''frank.intern'', ''Frank Smith'', ''Intern'', 0.6, ''intern'')]"

definition add_device ::
  "string \<times> DeviceType \<times> string \<times> real \<times> real \<times> real \<Rightarrow> Simulator \<Rightarrow> Simulator" where
  "add_device cfg s =
     (case cfg of (did, dtype, ip, trust, px, py) \<Rightarrow>
        s\<lparr>devices := dict_set (devices s) did
             \<lparr>device_id = did, device_type = dtype, ip_address = ip, trust_score = trust,
              is_compromised = False, location = ''office'', pos_x = px, pos_y = py\<rparr>\<rparr>)"

definition add_connection :: "string \<times> string \<Rightarrow> Simulator \<Rightarrow> Simulator" where
  "add_connection c s =
     (case c of (device1, device2) \<Rightarrow>
        s\<lparr>network_graph := graph_add (graph_add (network_graph s) device1 device2) device2 device1\<rparr>)"

definition add_user :: "string \<times> string \<times> string \<times> real \<times> string \<Rightarrow> Simulator \<Rightarrow> Simulator" where
  "add_user cfg s =
     (case cfg of (uid, uname, urole, risk, dept) \<Rightarrow>
        s\<lparr>users := dict_set (users s) uid
             \<lparr>user_id = uid, name = uname, role = urole, risk_score = risk, department = dept\<rparr>\<rparr>)"

definition initialize_network :: "Simulator \<Rightarrow> Simulator" where
  "initialize_network s =
     fold add_user users_config (fold add_connection connections (fold add_device devices_config s))"

definition zero_stats :: ActivityStats where
  "zero_stats = \<lparr>allowed = 0, denied = 0, challenged = 0, total_requests = 0\<rparr>"

text \<open>\<^verbatim>\<open>ZeroTrustNetworkSimulator()\<close>.\<close>

definition new_simulator :: Simulator where
  "new_simulator =
     initialize_network
       \<lparr>devices = [], users = [], network_graph = [], activity_stats = zero_stats,
        attack_sessions = []\<rparr>"

section \<open>The risk evaluator\<close>

definition sensitivity_map :: "(string \<times> real) list" where
  "sensitivity_map =
    [(''database'', 0.9), (''financial_data'', 0.95), (''customer_data'', 0.85),
     (''admin_panel'', 0.9), (''hr_records'', 0.8), (''source_code'', 0.7),
     (''file_share'', 0.5), (''email'', 0.3), (''printer'', 0.2), (''web_app'', 0.4),
     (''reports'', 0.6)]"

definition get_resource_sensitivity :: "string \<Rightarrow> real" where
  "get_resource_sensitivity res =
     (case map_of sensitivity_map res of Some v \<Rightarrow> v | None \<Rightarrow> 0.5)"

text \<open>
  \<^verbatim>\<open>datetime.fromtimestamp(timestamp).hour\<close> depends on the time zone of the host and
  raises for a timestamp outside the range the platform converts. It is the parameter
  \<open>local_hour\<close>: \<open>Some h\<close> is the local hour of the timestamp, \<open>None\<close> the raise.
\<close>

definition get_time_risk :: "(real \<Rightarrow> nat option) \<Rightarrow> real \<Rightarrow> py_error + real" where
  "get_time_risk local_hour ts =
     (case local_hour ts of
        None \<Rightarrow> Inl TimestampError
      | Some hour \<Rightarrow>
          Inr (if 9 \<le> hour \<and> hour \<le> 17 then 0.9
               else if (7 \<le> hour \<and> hour < 9) \<or> (17 < hour \<and> hour \<le> 20) then 0.6
               else 0.2))"

text \<open>The dictionary \<^verbatim>\<open>risk_factors\<close> has four fixed keys; its fields are named after
  them with the prefix \<open>rf_\<close>.\<close>

record RiskFactors =
  rf_user_risk :: real
  rf_device_risk :: real
  rf_resource_sensitivity :: real
  rf_time_risk :: real

text \<open>\<^verbatim>\<open>sum(risk_factors.values())\<close>: Python's \<^verbatim>\<open>sum\<close> starts from 0 and adds the values in
  the order of the keys.\<close>

definition sum_values :: "RiskFactors \<Rightarrow> real" where
  "sum_values rf =
     0 + rf_user_risk rf + rf_device_risk rf + rf_resource_sensitivity rf + rf_time_risk rf"

text \<open>The dictionary the evaluator returns. The early return has no key
  \<^verbatim>\<open>risk_factors\<close>: the field is \<open>None\<close> there.\<close>

record AccessResult =
  decision :: AccessDecision
  reason :: string
  result_trust_score :: real
  risk_factors :: "RiskFactors option"

definition baseline_decision :: "real \<Rightarrow> AccessDecision \<times> string" where
  "baseline_decision overall_risk =
     (if overall_risk < 0.5 then (ALLOW, ''Low risk profile - access granted'')
      else if overall_risk < 0.8 then (CHALLENGE, ''Medium risk - additional verification required'')
      else (DENY, ''High risk profile - access denied''))"

definition additional_checks ::
  "User \<Rightarrow> Device \<Rightarrow> real \<Rightarrow> AccessDecision \<times> string \<Rightarrow> AccessDecision \<times> string" where
  "additional_checks user device resource_sensitivity base =
     (if is_compromised device then (DENY, ''Device compromised - access blocked'')
      else if resource_sensitivity > 0.8 \<and> trust_score device < 0.8
        then (DENY, ''Insufficient device trust for sensitive resource'')
      else if department user = ''external'' \<and> resource_sensitivity > 0.5
        then (CHALLENGE, ''External user accessing internal resource'')
      else base)"

definition evaluate_zerotrust_access ::
  "(real \<Rightarrow> nat option) \<Rightarrow> Simulator \<Rightarrow> AccessRequest \<Rightarrow> py_error + AccessResult" where
  "evaluate_zerotrust_access local_hour s request =
     (case (map_of (users s) (req_user_id request), map_of (devices s) (req_device_id request)) of
        (Some user, Some device) \<Rightarrow>
          (let user_risk = risk_score user;
               device_trust = trust_score device;
               resource_sensitivity = get_resource_sensitivity (resource request)
           in case get_time_risk local_hour (timestamp request) of
                Inl e \<Rightarrow> Inl e
              | Inr time_risk \<Rightarrow>
                  (let factors = \<lparr>rf_user_risk = user_risk * 0.3,
                                  rf_device_risk = (1 - device_trust) * 0.3,
                                  rf_resource_sensitivity = resource_sensitivity * 0.25,
                                  rf_time_risk = (1 - time_risk) * 0.15\<rparr>;
                       overall_risk = sum_values factors;
                       final = additional_checks user device resource_sensitivity
                                 (baseline_decision overall_risk)
                   in Inr \<lparr>decision = fst final, reason = snd final,
                           result_trust_score = 1 - overall_risk,
                           risk_factors = Some factors\<rparr>))
      | _ \<Rightarrow>
          Inr \<lparr>decision = DENY, reason = ''Unknown user or device'',
               result_trust_score = 0.0, risk_factors = None\<rparr>)"

section \<open>The topology report\<close>

record Node =
  node_id :: string
  node_type :: string
  node_trust_score :: real
  node_is_compromised :: bool
  node_x :: real
  node_y :: real

text \<open>A link \<^verbatim>\<open>{'source': a, 'target': b}\<close> is the pair \<open>(a, b)\<close>. Python compares
  strings by code point, lexicographically, which is the order of \<open>string\<close> here.\<close>

record Topology =
  nodes :: "Node list"
  links :: "(string \<times> string) list"

definition get_network_topology :: "Simulator \<Rightarrow> Topology" where
  "get_network_topology s =
     \<lparr>nodes = map (\<lambda>device. \<lparr>node_id = device_id device,
                               node_type = DeviceType_value (device_type device),
                               node_trust_score = trust_score device,
                               node_is_compromised = is_compromised device,
                               node_x = pos_x device, node_y = pos_y device\<rparr>)
                   (map snd (devices s)),
      links = concat (map (\<lambda>(source, targets).
                         map (\<lambda>target. (source, target))
                           (filter (\<lambda>target. source < target) targets))
                       (network_graph s))\<rparr>"

section \<open>Randomness, clock and the event sink\<close>

text \<open>
  What a run draws from its surroundings: \<open>env_random k\<close> is the value of the \<open>k\<close>-th call
  of \<^verbatim>\<open>random.random()\<close>, \<open>env_choice k\<close> the position the \<open>k\<close>-th call of
  \<^verbatim>\<open>random.choice\<close> picks (taken modulo the length of its sequence), \<open>env_time k\<close> the
  \<open>k\<close>-th reading of \<^verbatim>\<open>time.time()\<close>, \<open>env_local_hour\<close> the conversion of a timestamp
  to the local hour and \<open>env_uuid4\<close> the fresh identifier. The pauses of
  \<^verbatim>\<open>time.sleep\<close> change no value and are left out; a background thread is run to
  its end at once.
\<close>

record Env =
  env_random :: "nat \<Rightarrow> real"
  env_choice :: "nat \<Rightarrow> nat"
  env_time :: "nat \<Rightarrow> real"
  env_local_hour :: "real \<Rightarrow> nat option"
  env_uuid4 :: string

definition choice :: "nat \<Rightarrow> 'a list \<Rightarrow> py_error + 'a" where
  "choice pick xs = (if xs = [] then Inl IndexError else Inr (xs ! (pick mod length xs)))"

record AttackStep =
  step_source :: string
  step_target :: string
  step_result :: string
  step_model :: string
  step_reason :: string

record AttackResults =
  res_model :: string
  compromised_count :: nat
  total_nodes :: nat
  containment_effectiveness :: string
  res_attack_id :: string
  res_entry_point :: string
  duration :: real

record ActivityData =
  act_user :: string
  act_resource :: string
  act_decision :: string
  act_reason :: string
  act_timestamp :: real
  act_stats :: ActivityStats

text \<open>What \<^verbatim>\<open>socketio.emit\<close> is given: an attack step with the list of compromised nodes
  and the attack id, the final results of an attack, or an activity update.\<close>

datatype Event =
    AttackProgress AttackStep "string list" string
  | AttackComplete AttackResults
  | ActivityUpdate ActivityData

subsection \<open>Formatting a percentage with one decimal\<close>

fun string_of_nat :: "nat \<Rightarrow> string" where
  "string_of_nat n =
     (if n < 10 then [''0123456789'' ! n]
      else string_of_nat (n div 10) @ [''0123456789'' ! (n mod 10)])"

declare string_of_nat.simps [simp del]

definition round_half_even :: "real \<Rightarrow> int" where
  "round_half_even r =
     (let n = \<lfloor>r\<rfloor>; f = r - of_int n
      in if f < 1 / 2 then n else if 1 / 2 < f then n + 1 else if even n then n else n + 1)"

text \<open>The format \<^verbatim>\<open>.1f\<close>: the nearest multiple of one tenth, a tie going to the even
  one.\<close>

definition format_1f :: "real \<Rightarrow> string" where
  "format_1f r =
     (let t = nat (round_half_even (\<bar>r\<bar> * 10))
      in (if r < 0 then ''-'' else []) @ string_of_nat (t div 10) @ ''.'' @ string_of_nat (t mod 10))"

text \<open>The string \<^verbatim>\<open>containment_effectiveness\<close>: the share of the devices that are not in
  the set \<^verbatim>\<open>compromised\<close>, as a percentage, with Python's integer subtraction and its
  true division.\<close>

definition containment :: "nat \<Rightarrow> nat \<Rightarrow> py_error + string" where
  "containment total_devices count =
     (if total_devices = 0 then Inl ZeroDivisionError
      else Inr (format_1f (of_int (int total_devices - int count) / of_nat total_devices * 100) @ ''%''))"

section \<open>The attack simulator\<close>

text \<open>What a run of an attack leaves: the exception that ended it (if any), the simulator,
  the events emitted in order, and the local set \<^verbatim>\<open>compromised\<close>.\<close>

record AttackOutcome =
  raised :: "py_error option"
  final_state :: Simulator
  emitted :: "Event list"
  compromised_set :: "string list"

subsection \<open>Traditional model\<close>

fun traditional_loop ::
  "Env \<Rightarrow> string \<Rightarrow> string \<Rightarrow> string list \<Rightarrow> nat \<Rightarrow> string list \<Rightarrow> (string \<times> Device) list \<Rightarrow>
   Event list \<Rightarrow> py_error option \<times> string list \<times> (string \<times> Device) list \<times> Event list" where
  "traditional_loop env attack_id entry_point [] k compromised ds evs =
     (None, compromised, ds, evs)"
| "traditional_loop env attack_id entry_point (target # rest) k compromised ds evs =
     (if target \<noteq> entry_point then
        (let compromised' = set_add compromised target
         in case map_of ds target of
              None \<Rightarrow> (Some (KeyError target), compromised', ds, evs)
            | Some _ \<Rightarrow>
                (let ds' = set_compromised ds target True
                 in case choice (env_choice env k) (removeAll target compromised') of
                      Inl e \<Rightarrow> (Some e, compromised', ds', evs)
                    | Inr source \<Rightarrow>
                        traditional_loop env attack_id entry_point rest (Suc k) compromised' ds'
                          (evs @ [AttackProgress
                             \<lparr>step_source = source, step_target = target,
                              step_result = ''success'', step_model = ''traditional'',
                              step_reason = ''Lateral movement via shared credentials/network access''\<rparr>
                             compromised' attack_id])))
      else traditional_loop env attack_id entry_point rest k compromised ds evs)"

definition simulate_traditional_attack :: "Env \<Rightarrow> string \<Rightarrow> string \<Rightarrow> Simulator \<Rightarrow> AttackOutcome" where
  "simulate_traditional_attack env attack_id entry_point s =
     (let compromised = [entry_point];
          all_devices = map fst (devices s)
      in case map_of (devices s) entry_point of
           None \<Rightarrow> \<lparr>raised = Some (KeyError entry_point), final_state = s, emitted = [],
                    compromised_set = compromised\<rparr>
         | Some _ \<Rightarrow>
             (let ds0 = set_compromised (devices s) entry_point True;
                  ev0 = AttackProgress
                          \<lparr>step_source = ''external'', step_target = entry_point,
                           step_result = ''success'', step_model = ''traditional'',
                           step_reason = ''Initial compromise via phishing/malware''\<rparr>
                          compromised attack_id
              in case traditional_loop env attack_id entry_point all_devices 0 compromised ds0 [ev0] of
                   (Some e, compromised', ds', evs) \<Rightarrow>
                     \<lparr>raised = Some e, final_state = s\<lparr>devices := ds'\<rparr>, emitted = evs,
                      compromised_set = compromised'\<rparr>
                 | (None, compromised', ds', evs) \<Rightarrow>
                     (let total_devices = length all_devices;
                          count = length compromised'
                      in case containment total_devices count of
                           Inl e \<Rightarrow>
                             \<lparr>raised = Some e, final_state = s\<lparr>devices := ds'\<rparr>, emitted = evs,
                              compromised_set = compromised'\<rparr>
                         | Inr effectiveness \<Rightarrow>
                             \<lparr>raised = None, final_state = s\<lparr>devices := ds'\<rparr>,
                              emitted = evs @ [AttackComplete
                                \<lparr>res_model = ''traditional'', compromised_count = count,
                                 total_nodes = total_devices,
                                 containment_effectiveness = effectiveness,
                                 res_attack_id = attack_id, res_entry_point = entry_point,
                                 duration = env_time env 0\<rparr>],
                              compromised_set = compromised'\<rparr>)))"

subsection \<open>Zero-trust model\<close>

fun zerotrust_loop ::
  "Env \<Rightarrow> string \<Rightarrow> string \<Rightarrow> string list \<Rightarrow> nat \<Rightarrow> string list \<Rightarrow> (string \<times> Device) list \<Rightarrow>
   Event list \<Rightarrow> py_error option \<times> string list \<times> (string \<times> Device) list \<times> Event list" where
  "zerotrust_loop env attack_id entry_point [] i compromised ds evs =
     (None, compromised, ds, evs)"
| "zerotrust_loop env attack_id entry_point (target # rest) i compromised ds evs =
     (let success_rate = 0.1
      in if env_random env i < success_rate then
           (let compromised' = set_add compromised target
            in case map_of ds target of
                 None \<Rightarrow> (Some (KeyError target), compromised', ds, evs)
               | Some _ \<Rightarrow>
                   zerotrust_loop env attack_id entry_point rest (Suc i) compromised'
                     (set_compromised ds target True)
                     (evs @ [AttackProgress
                        \<lparr>step_source = entry_point, step_target = target,
                         step_result = ''success'', step_model = ''zerotrust'',
                         step_reason = ''Lateral movement succeeded despite zero-trust (rare vulnerability)''\<rparr>
                        compromised' attack_id]))
         else
           zerotrust_loop env attack_id entry_point rest (Suc i) compromised ds
             (evs @ [AttackProgress
                \<lparr>step_source = entry_point, step_target = target,
                 step_result = ''blocked'', step_model = ''zerotrust'',
                 step_reason = ''Zero-trust policy blocked lateral movement - continuous verification failed''\<rparr>
                compromised attack_id]))"

definition simulate_zerotrust_attack :: "Env \<Rightarrow> string \<Rightarrow> string \<Rightarrow> Simulator \<Rightarrow> AttackOutcome" where
  "simulate_zerotrust_attack env attack_id entry_point s =
     (let compromised = [entry_point]
      in case map_of (devices s) entry_point of
           None \<Rightarrow> \<lparr>raised = Some (KeyError entry_point), final_state = s, emitted = [],
                    compromised_set = compromised\<rparr>
         | Some _ \<Rightarrow>
             (let ds0 = set_compromised (devices s) entry_point True;
                  ev0 = AttackProgress
                          \<lparr>step_source = ''external'', step_target = entry_point,
                           step_result = ''success'', step_model = ''zerotrust'',
                           step_reason = ''Initial compromise via social engineering''\<rparr>
                          compromised attack_id
              in case graph_get (network_graph s) entry_point of
                   (neighbors, g') \<Rightarrow>
                     (let attempted_targets = take 4 neighbors
                      in case zerotrust_loop env attack_id entry_point attempted_targets 0
                                compromised ds0 [ev0] of
                           (Some e, compromised', ds', evs) \<Rightarrow>
                             \<lparr>raised = Some e, final_state = s\<lparr>devices := ds', network_graph := g'\<rparr>,
                              emitted = evs, compromised_set = compromised'\<rparr>
                         | (None, compromised', ds', evs) \<Rightarrow>
                             (let total_devices = length ds';
                                  count = length compromised'
                              in case containment total_devices count of
                                   Inl e \<Rightarrow>
                                     \<lparr>raised = Some e,
                                      final_state = s\<lparr>devices := ds', network_graph := g'\<rparr>,
                                      emitted = evs, compromised_set = compromised'\<rparr>
                                 | Inr effectiveness \<Rightarrow>
                                     \<lparr>raised = None,
                                      final_state = s\<lparr>devices := ds', network_graph := g'\<rparr>,
                                      emitted = evs @ [AttackComplete
                                        \<lparr>res_model = ''zerotrust'', compromised_count = count,
                                         total_nodes = total_devices,
                                         containment_effectiveness = effectiveness,
                                         res_attack_id = attack_id, res_entry_point = entry_point,
                                         duration = env_time env 0\<rparr>],
                                      compromised_set = compromised'\<rparr>))))"

text \<open>The list comprehension of the device ids whose device is no router.\<close>

definition non_router_devices :: "Simulator \<Rightarrow> string list" where
  "non_router_devices s =
     filter (\<lambda>d. case map_of (devices s) d of
                   Some device \<Rightarrow> device_type device \<noteq> ROUTER
                 | None \<Rightarrow> False)
       (map fst (devices s))"

text \<open>\<^verbatim>\<open>simulate_lateral_movement_attack\<close>: the entry point is drawn first, then the run
  draws from the rest of the random stream.\<close>

definition simulate_lateral_movement_attack :: "Env \<Rightarrow> SecurityModel \<Rightarrow> Simulator \<Rightarrow> AttackOutcome" where
  "simulate_lateral_movement_attack env model s =
     (case choice (env_choice env 0) (non_router_devices s) of
        Inl e \<Rightarrow> \<lparr>raised = Some e, final_state = s, emitted = [], compromised_set = []\<rparr>
      | Inr entry_point \<Rightarrow>
          (let attack_id = env_uuid4 env;
               run_env = env\<lparr>env_choice := \<lambda>k. env_choice env (Suc k)\<rparr>
           in if model = TRADITIONAL
              then simulate_traditional_attack run_env attack_id entry_point s
              else simulate_zerotrust_attack run_env attack_id entry_point s))"

section \<open>The activity generator\<close>

definition resources :: "string list" where
  "resources =
     [''email'', ''file_share'', ''database'', ''web_app'', ''printer'',
      ''admin_panel'', ''reports'', ''customer_data'', ''financial_data'', ''hr_records'']"

text \<open>\<^verbatim>\<open>self.activity_stats[key] += 1\<close> on the dictionary of the four counters.\<close>

definition stats_increment :: "ActivityStats \<Rightarrow> string \<Rightarrow> py_error + ActivityStats" where
  "stats_increment st key =
     (if key = ''allowed'' then Inr (st\<lparr>allowed := allowed st + 1\<rparr>)
      else if key = ''denied'' then Inr (st\<lparr>denied := denied st + 1\<rparr>)
      else if key = ''challenged'' then Inr (st\<lparr>challenged := challenged st + 1\<rparr>)
      else if key = ''total_requests'' then Inr (st\<lparr>total_requests := total_requests st + 1\<rparr>)
      else Inl (KeyError key))"

text \<open>One pass of the loop body of \<^verbatim>\<open>generate_activity\<close>, the \<open>i\<close>-th: three calls of
  \<^verbatim>\<open>random.choice\<close> and two readings of the clock.\<close>

definition activity_step :: "Env \<Rightarrow> nat \<Rightarrow> Simulator \<Rightarrow> py_error option \<times> Simulator \<times> Event list" where
  "activity_step env i s =
     (let eligible_devices = non_router_devices s
      in case choice (env_choice env (3 * i)) (map fst (users s)) of
           Inl e \<Rightarrow> (Some e, s, [])
         | Inr uid \<Rightarrow>
             (case choice (env_choice env (3 * i + 1)) eligible_devices of
                Inl e \<Rightarrow> (Some e, s, [])
              | Inr did \<Rightarrow>
                  (case choice (env_choice env (3 * i + 2)) resources of
                     Inl e \<Rightarrow> (Some e, s, [])
                   | Inr res \<Rightarrow>
                       (let request = \<lparr>req_user_id = uid, req_device_id = did, resource = res,
                                       action = ''access'', timestamp = env_time env (2 * i)\<rparr>
                        in case evaluate_zerotrust_access (env_local_hour env) s request of
                             Inl e \<Rightarrow> (Some e, s, [])
                           | Inr decision_result \<Rightarrow>
                               (let decision_type = AccessDecision_value (decision decision_result)
                                in case stats_increment (activity_stats s) decision_type of
                                     Inl e \<Rightarrow> (Some e, s, [])
                                   | Inr st1 \<Rightarrow>
                                       (case stats_increment st1 ''total_requests'' of
                                          Inl e \<Rightarrow> (Some e, s\<lparr>activity_stats := st1\<rparr>, [])
                                        | Inr st2 \<Rightarrow>
                                            (None, s\<lparr>activity_stats := st2\<rparr>,
                                             [ActivityUpdate
                                                \<lparr>act_user = uid, act_resource = res,
                                                 act_decision = decision_type,
                                                 act_reason = reason decision_result,
                                                 act_timestamp = env_time env (2 * i + 1) * 1000,
                                                 act_stats = st2\<rparr>])))))))"

text \<open>The loop \<^verbatim>\<open>for i in range(10)\<close>; an exception ends it.\<close>

fun activity_loop ::
  "Env \<Rightarrow> nat list \<Rightarrow> Simulator \<Rightarrow> Event list \<Rightarrow> py_error option \<times> Simulator \<times> Event list" where
  "activity_loop env [] s evs = (None, s, evs)"
| "activity_loop env (i # rest) s evs =
     (case activity_step env i s of
        (Some e, s', ev) \<Rightarrow> (Some e, s', evs @ ev)
      | (None, s', ev) \<Rightarrow> activity_loop env rest s' (evs @ ev))"

definition simulate_normal_activity :: "Env \<Rightarrow> Simulator \<Rightarrow> py_error option \<times> Simulator \<times> Event list" where
  "simulate_normal_activity env s = activity_loop env [0..<10] s []"

section \<open>Reset\<close>

definition reset_network :: "Simulator \<Rightarrow> Simulator" where
  "reset_network s =
     s\<lparr>devices := map (\<lambda>(k, device). (k, device\<lparr>is_compromised := False\<rparr>)) (devices s),
       activity_stats := \<lparr>allowed = 0, denied = 0, challenged = 0, total_requests = 0\<rparr>,
       attack_sessions := []\<rparr>"

section \<open>The engine as a whole\<close>

text \<open>
  The operations of the engine, each with what it draws from its surroundings. An access
  evaluation assigns to no attribute of the simulator, so it leaves the state as it is.
  A state of the program is what a sequence of operations makes of a new simulator.
\<close>

datatype Command =
    EvaluateAccess "real \<Rightarrow> nat option" AccessRequest
  | StartActivity Env
  | StartAttack Env SecurityModel
  | TraditionalAttack Env string string
  | ZeroTrustAttack Env string string
  | Reset

fun execute :: "Command \<Rightarrow> Simulator \<Rightarrow> Simulator" where
  "execute (EvaluateAccess local_hour request) s = s"
| "execute (StartActivity env) s = fst (snd (simulate_normal_activity env s))"
| "execute (StartAttack env model) s = final_state (simulate_lateral_movement_attack env model s)"
| "execute (TraditionalAttack env attack_id entry_point) s =
     final_state (simulate_traditional_attack env attack_id entry_point s)"
| "execute (ZeroTrustAttack env attack_id entry_point) s =
     final_state (simulate_zerotrust_attack env attack_id entry_point s)"
| "execute Reset s = reset_network s"

definition run :: "Command list \<Rightarrow> Simulator" where
  "run cmds = fold execute cmds new_simulator"

subsection \<open>Observations on a state\<close>

text \<open>The compromised flag of the device with id \<open>k\<close> (false when there is none).\<close>

definition device_compromised :: "Simulator \<Rightarrow> string \<Rightarrow> bool" where
  "device_compromised s k =
     (case map_of (devices s) k of Some device \<Rightarrow> is_compromised device | None \<Rightarrow> False)"

text \<open>The neighbours of a device and their number.\<close>

definition neighbors_of :: "Simulator \<Rightarrow> string \<Rightarrow> string list" where
  "neighbors_of s k = fst (graph_get (network_graph s) k)"

definition degree :: "Simulator \<Rightarrow> string \<Rightarrow> nat" where
  "degree s k = length (neighbors_of s k)"

text \<open>The adjacency relation as the list of its directed edges.\<close>

definition edges :: "Simulator \<Rightarrow> (string \<times> string) list" where
  "edges s = concat (map (\<lambda>(a, ns). map (\<lambda>b. (a, b)) ns) (network_graph s))"

text \<open>A device without its compromised flag.\<close>

definition device_static :: "Device \<Rightarrow> Device" where
  "device_static device = device\<lparr>is_compromised := False\<rparr>"

definition static_devices :: "Simulator \<Rightarrow> (string \<times> Device) list" where
  "static_devices s = map (\<lambda>(k, device). (k, device_static device)) (devices s)"

text \<open>The clean state: no device compromised, the four counters zero, no attack session.\<close>

definition clean :: "Simulator \<Rightarrow> bool" where
  "clean s \<longleftrightarrow>
     list_all (\<lambda>(k, device). \<not> is_compromised device) (devices s) \<and>
     activity_stats s = \<lparr>allowed = 0, denied = 0, challenged = 0, total_requests = 0\<rparr> \<and>
     attack_sessions s = []"

definition stats_consistent :: "ActivityStats \<Rightarrow> bool" where
  "stats_consistent st \<longleftrightarrow> allowed st + denied st + challenged st = total_requests st"

text \<open>The scores of the data model lie between 0 and 1.\<close>

definition scores_in_range :: "Simulator \<Rightarrow> bool" where
  "scores_in_range s \<longleftrightarrow>
     list_all (\<lambda>(k, user). 0 \<le> risk_score user \<and> risk_score user \<le> 1) (users s) \<and>
     list_all (\<lambda>(k, device). 0 \<le> trust_score device \<and> trust_score device \<le> 1) (devices s)"

text \<open>A conversion to the local hour for the examples: the hour of the day in UTC, for the
  timestamps of the years 1 to 9999.\<close>

definition utc_hour :: "real \<Rightarrow> nat option" where
  "utc_hour ts =
     (if - 62135596800 \<le> ts \<and> ts < 253402300800
      then Some (nat (\<lfloor>ts\<rfloor> div 3600 mod 24)) else None)"

text \<open>The sum of the risk factors a result carries; a result without risk factors carries
  none, and the empty sum is 0.\<close>

definition returned_risk :: "AccessResult \<Rightarrow> real" where
  "returned_risk r = (case risk_factors r of None \<Rightarrow> 0 | Some rf \<Rightarrow> sum_values rf)"

text \<open>Surroundings for the examples: every random draw is one half, the \<open>k\<close>-th choice picks
  position \<open>k\<close>, the clock starts at 1700000000 (14 November 2023, 22:13:20 UTC).\<close>

definition example_env :: Env where
  "example_env =
     \<lparr>env_random = (\<lambda>k. 1 / 2), env_choice = (\<lambda>k. k), env_time = (\<lambda>k. 1700000000 + of_nat k),
      env_local_hour = utc_hour, env_uuid4 = ''attack-1''\<rparr>"

text \<open>Example states: the simulator after a zero-trust attack on the printer in which every
  lateral move is blocked, and a simulator whose finance workstation has the trust score
  0.5.\<close>

definition compromised_printer :: Simulator where
  "compromised_printer = run [ZeroTrustAttack example_env ''attack-1'' ''printer-01'']"

definition low_trust_simulator :: Simulator where
  "low_trust_simulator =
     new_simulator\<lparr>devices := dict_set (devices new_simulator) ''ws-finance-01''
       \<lparr>device_id = ''ws-finance-01'', device_type = WORKSTATION, ip_address = ''192.168.2.10'',
        trust_score = 0.5, is_compromised = False, location = ''office'', pos_x = 200,
        pos_y = 300\<rparr>\<rparr>"

definition alice_request :: "real \<Rightarrow> AccessRequest" where
  "alice_request ts =
     \<lparr>req_user_id = ''alice.finance'', req_device_id = ''ws-finance-01'',
      resource = ''financial_data'', action = ''access'', timestamp = ts\<rparr>"

text \<open>Two states with the same topology: the same devices up to their compromised flags,
  the same users and the same adjacency relation.\<close>

definition same_topology :: "Simulator \<Rightarrow> Simulator \<Rightarrow> bool" where
  "same_topology s s' \<longleftrightarrow>
     static_devices s' = static_devices s \<and> users s' = users s \<and> edges s' = edges s"

text \<open>The counters after one request with the decision \<open>d\<close> has been counted: the counter
  of the decision and the total are one higher.\<close>

definition count_decision :: "AccessDecision \<Rightarrow> ActivityStats \<Rightarrow> ActivityStats" where
  "count_decision d st =
     (case d of
        ALLOW \<Rightarrow> st\<lparr>allowed := allowed st + 1, total_requests := total_requests st + 1\<rparr>
      | DENY \<Rightarrow> st\<lparr>denied := denied st + 1, total_requests := total_requests st + 1\<rparr>
      | CHALLENGE \<Rightarrow> st\<lparr>challenged := challenged st + 1, total_requests := total_requests st + 1\<rparr>)"

text \<open>Surroundings in which every random draw is 0, so that every attempted lateral move
  of a zero-trust attack succeeds.\<close>

definition lucky_env :: Env where
  "lucky_env = example_env\<lparr>env_random := (\<lambda>k. 0)\<rparr>"

text \<open>The devices after the compromised flag of every device with an id in \<open>T\<close> has been
  set.\<close>

definition mark :: "string set \<Rightarrow> (string \<times> Device) list \<Rightarrow> (string \<times> Device) list" where
  "mark T ds = map (\<lambda>(k, d). if k \<in> T then (k, d\<lparr>is_compromised := True\<rparr>) else (k, d)) ds"

section \<open>The risk evaluator in floating-point arithmetic\<close>

text \<open>
  The numbers that the evaluator returns are Python floats. To state what they are, the
  evaluator is given once more with its arithmetic made explicit: \<open>fa_round\<close> takes the
  exact value of a literal, of a stored score or of an operation to the float the
  interpreter has for it, and \<open>fa_sum\<close> is the built-in \<^verbatim>\<open>sum\<close> on a list of floats
  (a chain of rounded additions before Python 3.12, a compensated summation since).
  Comparisons of floats are exact. With the exact arithmetic this is the evaluator of
  the section above.
\<close>

record FloatArith =
  fa_round :: "real \<Rightarrow> real"
  fa_sum :: "real list \<Rightarrow> real"

definition exact_arith :: FloatArith where
  "exact_arith = \<lparr>fa_round = (\<lambda>x. x), fa_sum = sum_list\<rparr>"

text \<open>What is assumed of a floating-point arithmetic: a rounding moves a value between
  1/1000 and 1000 by at most the relative error \<open>1 / 2 ^ 53\<close> of binary64, and the sum of
  four floats that are not negative is within the relative error \<open>1 / 2 ^ 50\<close> of their
  exact sum.\<close>

definition float_arith :: "FloatArith \<Rightarrow> bool" where
  "float_arith ar \<longleftrightarrow>
     (\<forall>x. 1 / 1000 \<le> \<bar>x\<bar> \<and> \<bar>x\<bar> \<le> 1000 \<longrightarrow> \<bar>fa_round ar x - x\<bar> \<le> \<bar>x\<bar> / 2 ^ 53) \<and>
     (\<forall>a b c d. 0 \<le> a \<and> 0 \<le> b \<and> 0 \<le> c \<and> 0 \<le> d \<longrightarrow>
        \<bar>fa_sum ar [a, b, c, d] - (a + b + c + d)\<bar> \<le> (a + b + c + d) / 2 ^ 50)"

definition baseline_decision_float :: "FloatArith \<Rightarrow> real \<Rightarrow> AccessDecision \<times> string" where
  "baseline_decision_float ar overall_risk =
     (if overall_risk < fa_round ar 0.5 then (ALLOW, ''Low risk profile - access granted'')
      else if overall_risk < fa_round ar 0.8
        then (CHALLENGE, ''Medium risk - additional verification required'')
      else (DENY, ''High risk profile - access denied''))"

definition additional_checks_float ::
  "FloatArith \<Rightarrow> User \<Rightarrow> Device \<Rightarrow> real \<Rightarrow> real \<Rightarrow> AccessDecision \<times> string \<Rightarrow>
   AccessDecision \<times> string" where
  "additional_checks_float ar user device device_trust resource_sensitivity base =
     (if is_compromised device then (DENY, ''Device compromised - access blocked'')
      else if resource_sensitivity > fa_round ar 0.8 \<and> device_trust < fa_round ar 0.8
        then (DENY, ''Insufficient device trust for sensitive resource'')
      else if department user = ''external'' \<and> resource_sensitivity > fa_round ar 0.5
        then (CHALLENGE, ''External user accessing internal resource'')
      else base)"

definition evaluate_zerotrust_access_float ::
  "FloatArith \<Rightarrow> (real \<Rightarrow> nat option) \<Rightarrow> Simulator \<Rightarrow> AccessRequest \<Rightarrow> py_error + AccessResult" where
  "evaluate_zerotrust_access_float ar local_hour s request =
     (case (map_of (users s) (req_user_id request), map_of (devices s) (req_device_id request)) of
        (Some user, Some device) \<Rightarrow>
          (let user_risk = fa_round ar (risk_score user);
               device_trust = fa_round ar (trust_score device);
               resource_sensitivity = fa_round ar (get_resource_sensitivity (resource request))
           in case get_time_risk local_hour (timestamp request) of
                Inl e \<Rightarrow> Inl e
              | Inr literal \<Rightarrow>
                  (let time_risk = fa_round ar literal;
                       factors =
                         \<lparr>rf_user_risk = fa_round ar (user_risk * fa_round ar 0.3),
                          rf_device_risk =
                            fa_round ar (fa_round ar (1 - device_trust) * fa_round ar 0.3),
                          rf_resource_sensitivity =
                            fa_round ar (resource_sensitivity * fa_round ar 0.25),
                          rf_time_risk =
                            fa_round ar (fa_round ar (1 - time_risk) * fa_round ar 0.15)\<rparr>;
                       overall_risk =
                         fa_sum ar [rf_user_risk factors, rf_device_risk factors,
                                    rf_resource_sensitivity factors, rf_time_risk factors];
                       final = additional_checks_float ar user device device_trust
                                 resource_sensitivity (baseline_decision_float ar overall_risk)
                   in Inr \<lparr>decision = fst final, reason = snd final,
                           result_trust_score = fa_round ar (1 - overall_risk),
                           risk_factors = Some factors\<rparr>))
      | _ \<Rightarrow>
          Inr \<lparr>decision = DENY, reason = ''Unknown user or device'',
               result_trust_score = 0.0, risk_factors = None\<rparr>)"

text \<open>
  The arithmetic of binary64: \<open>binary64_round\<close> is the nearest number with a significand
  of 53 bits, a tie going to the even significand. The exponent is not bounded here, so
  this is the rounding of IEEE 754 binary64 for the values of its normal range. \<open>naive_sum\<close> adds from the left, starting from 0, with one rounding for
  each addition.
\<close>

definition binary64_round :: "real \<Rightarrow> real" where
  "binary64_round x =
     (if x = 0 then 0
      else (let q = 2 powr (of_int (\<lfloor>log 2 \<bar>x\<bar>\<rfloor> - 52))
            in sgn x * of_int (round_half_even (\<bar>x\<bar> / q)) * q))"

definition naive_sum :: "(real \<Rightarrow> real) \<Rightarrow> real list \<Rightarrow> real" where
  "naive_sum rnd xs = foldl (\<lambda>acc x. rnd (acc + x)) 0 xs"

definition binary64_arith :: FloatArith where
  "binary64_arith = \<lparr>fa_round = binary64_round, fa_sum = naive_sum binary64_round\<rparr>"

section \<open>Properties of the risk evaluator\<close>

subsection \<open>Auxiliary facts\<close>

lemma sensitivity_bounds:
  "1 / 5 \<le> get_resource_sensitivity res \<and> get_resource_sensitivity res \<le> 19 / 20"
  by (simp add: get_resource_sensitivity_def sensitivity_map_def)

lemma time_risk_bounds:
  "get_time_risk lh ts = Inr t \<Longrightarrow> 1 / 5 \<le> t \<and> t \<le> 9 / 10"
  by (auto simp: get_time_risk_def split: option.splits if_splits)

lemma map_of_list_all:
  "map_of xs k = Some v \<Longrightarrow> list_all P xs \<Longrightarrow> P (k, v)"
  by (auto simp: list_all_iff dest: map_of_SomeD)

lemma evaluate_unknown:
  assumes "map_of (users s) (req_user_id request) = None \<or> map_of (devices s) (req_device_id request) = None"
  shows "evaluate_zerotrust_access lh s request =
     Inr \<lparr>decision = DENY, reason = ''Unknown user or device'', result_trust_score = 0, risk_factors = None\<rparr>"
  using assms by (auto simp: evaluate_zerotrust_access_def split: option.splits)

lemma evaluate_known:
  assumes "map_of (users s) (req_user_id request) = Some user"
      and "map_of (devices s) (req_device_id request) = Some device"
      and "get_time_risk lh (timestamp request) = Inr time_risk"
  shows "evaluate_zerotrust_access lh s request =
     Inr \<lparr>decision = fst (additional_checks user device (get_resource_sensitivity (resource request))
                 (baseline_decision (sum_values
                    \<lparr>rf_user_risk = risk_score user * 0.3,
                     rf_device_risk = (1 - trust_score device) * 0.3,
                     rf_resource_sensitivity = get_resource_sensitivity (resource request) * 0.25,
                     rf_time_risk = (1 - time_risk) * 0.15\<rparr>))),
          reason = snd (additional_checks user device (get_resource_sensitivity (resource request))
                 (baseline_decision (sum_values
                    \<lparr>rf_user_risk = risk_score user * 0.3,
                     rf_device_risk = (1 - trust_score device) * 0.3,
                     rf_resource_sensitivity = get_resource_sensitivity (resource request) * 0.25,
                     rf_time_risk = (1 - time_risk) * 0.15\<rparr>))),
          result_trust_score = 1 - sum_values
                    \<lparr>rf_user_risk = risk_score user * 0.3,
                     rf_device_risk = (1 - trust_score device) * 0.3,
                     rf_resource_sensitivity = get_resource_sensitivity (resource request) * 0.25,
                     rf_time_risk = (1 - time_risk) * 0.15\<rparr>,
          risk_factors = Some
                    \<lparr>rf_user_risk = risk_score user * 0.3,
                     rf_device_risk = (1 - trust_score device) * 0.3,
                     rf_resource_sensitivity = get_resource_sensitivity (resource request) * 0.25,
                     rf_time_risk = (1 - time_risk) * 0.15\<rparr>\<rparr>"
  using assms by (simp add: evaluate_zerotrust_access_def Let_def)

lemma evaluate_known_raises:
  assumes "map_of (users s) (req_user_id request) = Some user"
      and "map_of (devices s) (req_device_id request) = Some device"
      and "get_time_risk lh (timestamp request) = Inl e"
  shows "evaluate_zerotrust_access lh s request = Inl e"
  using assms by (simp add: evaluate_zerotrust_access_def Let_def)

lemma mallory_unknown: "map_of (users new_simulator) ''mallory'' = None"
  by code_simp

subsection \<open>Requests that name an unknown user or device\<close>

text \<open>
  Claim C6. A request whose user id or device id is absent from the topology is answered
  with the decision DENY, the reason \<^verbatim>\<open>Unknown user or device\<close> and the trust score 0.0;
  the result carries no risk factors. The evaluator returns this result, it does not raise
  (whatever the timestamp is, the conversion to the local hour is not reached), and the
  state is the same afterwards.
\<close>

theorem unknown_reference_denied:
  assumes "map_of (users s) (req_user_id request) = None \<or> map_of (devices s) (req_device_id request) = None"
  shows "evaluate_zerotrust_access local_hour s request =
           Inr \<lparr>decision = DENY, reason = ''Unknown user or device'', result_trust_score = 0,
                risk_factors = None\<rparr> \<and>
         execute (EvaluateAccess local_hour request) s = s"
  using evaluate_unknown [OF assms] by simp

theorem unknown_reference_denied_witness:
  "evaluate_zerotrust_access utc_hour new_simulator
     \<lparr>req_user_id = ''mallory'', req_device_id = ''printer-01'', resource = ''email'',
      action = ''access'', timestamp = 1700000000\<rparr> =
     Inr \<lparr>decision = DENY, reason = ''Unknown user or device'', result_trust_score = 0,
          risk_factors = None\<rparr> \<and>
   execute (EvaluateAccess utc_hour
     \<lparr>req_user_id = ''mallory'', req_device_id = ''printer-01'', resource = ''email'',
      action = ''access'', timestamp = 1700000000\<rparr>) new_simulator = new_simulator"
  using unknown_reference_denied [of new_simulator
     "\<lparr>req_user_id = ''mallory'', req_device_id = ''printer-01'', resource = ''email'',
      action = ''access'', timestamp = 1700000000\<rparr>" utc_hour] mallory_unknown
  by simp

subsection \<open>Requests from a compromised device\<close>

text \<open>
  Claim C1, as amended. When the device id of a request resolves to a device whose
  compromised flag is set, every result the evaluator returns has the decision DENY,
  whatever the risk score of the user, the trust score of the device and the resource
  are. The reason is \<^verbatim>\<open>Device compromised - access blocked\<close> when the user id resolves
  as well, and \<^verbatim>\<open>Unknown user or device\<close> when it does not. The evaluator returns a
  result exactly when the user is unknown or the timestamp converts to a local hour.
\<close>

theorem compromised_device_denied:
  assumes "map_of (devices s) (req_device_id request) = Some device" and "is_compromised device"
  shows "(\<forall>r. evaluate_zerotrust_access local_hour s request = Inr r \<longrightarrow>
            decision r = DENY \<and>
            reason r = (if map_of (users s) (req_user_id request) = None
                        then ''Unknown user or device''
                        else ''Device compromised - access blocked'')) \<and>
         ((\<exists>r. evaluate_zerotrust_access local_hour s request = Inr r) \<longleftrightarrow>
            map_of (users s) (req_user_id request) = None \<or>
            local_hour (timestamp request) \<noteq> None)"
proof (cases "map_of (users s) (req_user_id request)")
  case None
  then show ?thesis by (simp add: evaluate_unknown)
next
  case (Some user)
  show ?thesis
  proof (cases "local_hour (timestamp request)")
    case None
    then have "get_time_risk local_hour (timestamp request) = Inl TimestampError"
      by (simp add: get_time_risk_def)
    from evaluate_known_raises [OF Some assms(1) this] Some None show ?thesis by simp
  next
    case (Some hour)
    then obtain t where "get_time_risk local_hour (timestamp request) = Inr t"
      by (simp add: get_time_risk_def)
    from evaluate_known [OF \<open>map_of (users s) (req_user_id request) = Some user\<close> assms(1) this]
    show ?thesis
      using assms(2) Some \<open>map_of (users s) (req_user_id request) = Some user\<close>
      by (simp add: additional_checks_def)
  qed
qed

subsection \<open>Lookups in the example states\<close>

lemma printer_lookup:
  "map_of (devices compromised_printer) ''printer-01'' =
     Some \<lparr>device_id = ''printer-01'', device_type = IOT, ip_address = ''192.168.3.10'',
           trust_score = 0.4, is_compromised = True, location = ''office'', pos_x = 700,
           pos_y = 400\<rparr>"
  by code_simp

lemma alice_lookup:
  "map_of (users new_simulator) ''alice.finance'' =
     Some \<lparr>user_id = ''alice.finance'', name = ''Alice Johnson'', role = ''CFO'',
           risk_score = 0.3, department = ''finance''\<rparr>"
  by code_simp

lemma alice_lookup_cp:
  "map_of (users compromised_printer) ''alice.finance'' =
     Some \<lparr>user_id = ''alice.finance'', name = ''Alice Johnson'', role = ''CFO'',
           risk_score = 0.3, department = ''finance''\<rparr>"
  by code_simp

lemma mallory_unknown_cp: "map_of (users compromised_printer) ''mallory'' = None"
  by code_simp

lemma ws_lookup:
  "map_of (devices new_simulator) ''ws-finance-01'' =
     Some \<lparr>device_id = ''ws-finance-01'', device_type = WORKSTATION, ip_address = ''192.168.2.10'',
        trust_score = 0.8, is_compromised = False, location = ''office'', pos_x = 200,
        pos_y = 300\<rparr>"
  by code_simp

lemma ws_lookup_low:
  "map_of (devices low_trust_simulator) ''ws-finance-01'' =
     Some \<lparr>device_id = ''ws-finance-01'', device_type = WORKSTATION, ip_address = ''192.168.2.10'',
        trust_score = 0.5, is_compromised = False, location = ''office'', pos_x = 200,
        pos_y = 300\<rparr>"
  by code_simp

lemma alice_lookup_low:
  "map_of (users low_trust_simulator) ''alice.finance'' =
     Some \<lparr>user_id = ''alice.finance'', name = ''Alice Johnson'', role = ''CFO'',
           risk_score = 0.3, department = ''finance''\<rparr>"
  by code_simp

lemma new_scores: "scores_in_range new_simulator"
  by code_simp

lemma cp_flag: "device_compromised compromised_printer ''printer-01''"
  by code_simp

lemma utc_noon: "utc_hour 1699963200 = Some 12"
  by (simp add: utc_hour_def)

lemma utc_late: "utc_hour 1700000000 = Some 22"
  by (simp add: utc_hour_def)

text \<open>An instance: Alice asks for her mail from the compromised printer.\<close>

theorem compromised_device_denied_witness:
  "\<exists>r. evaluate_zerotrust_access utc_hour compromised_printer
          \<lparr>req_user_id = ''alice.finance'', req_device_id = ''printer-01'', resource = ''email'',
           action = ''access'', timestamp = 1700000000\<rparr> = Inr r \<and>
        decision r = DENY \<and> reason r = ''Device compromised - access blocked''"
  using compromised_device_denied [of compromised_printer
          "\<lparr>req_user_id = ''alice.finance'', req_device_id = ''printer-01'', resource = ''email'',
           action = ''access'', timestamp = 1700000000\<rparr>" _ utc_hour]
        printer_lookup alice_lookup_cp utc_late
  by auto

text \<open>The claim as first stated promises the reason of the compromised device for every
  such request. A request from the compromised printer by a user the topology does not
  know is denied with the reason of the unknown reference instead.\<close>

theorem compromised_device_reason_counterexample:
  "device_compromised compromised_printer ''printer-01'' \<and>
   evaluate_zerotrust_access utc_hour compromised_printer
     \<lparr>req_user_id = ''mallory'', req_device_id = ''printer-01'', resource = ''email'',
      action = ''access'', timestamp = 1700000000\<rparr> =
     Inr \<lparr>decision = DENY, reason = ''Unknown user or device'', result_trust_score = 0,
          risk_factors = None\<rparr> \<and>
   ''Unknown user or device'' \<noteq> ''Device compromised - access blocked''"
  using cp_flag mallory_unknown_cp by (simp add: evaluate_unknown)

subsection \<open>Decision, trust score and overall risk\<close>

text \<open>
  Claim C4, as amended. Whenever the evaluator returns a result, its decision is one of
  ALLOW, CHALLENGE and DENY. For a request whose user and device exist, the result
  carries the four risk factors, its trust score is 1 minus their sum, and that sum, the
  overall risk, lies between 0 and 1 (the scores of the users and devices lying between 0
  and 1, as in the data model). For a request whose user or device is absent the trust
  score is 0.0 and the result carries no risk factors.
\<close>

theorem evaluation_result_consistent:
  assumes "scores_in_range s" and "evaluate_zerotrust_access local_hour s request = Inr r"
  shows "decision r \<in> {ALLOW, CHALLENGE, DENY} \<and>
         (if map_of (users s) (req_user_id request) = None \<or>
             map_of (devices s) (req_device_id request) = None
          then result_trust_score r = 0 \<and> risk_factors r = None
          else result_trust_score r = 1 - returned_risk r \<and> risk_factors r \<noteq> None \<and>
               0 \<le> returned_risk r \<and> returned_risk r \<le> 1)"
proof -
  have dec: "decision r \<in> {ALLOW, CHALLENGE, DENY}"
    by (cases "decision r") simp_all
  show ?thesis
  proof (cases "map_of (users s) (req_user_id request) = None \<or>
                map_of (devices s) (req_device_id request) = None")
    case True
    from evaluate_unknown [OF True, of local_hour] assms(2) have
      "r = \<lparr>decision = DENY, reason = ''Unknown user or device'', result_trust_score = 0,
            risk_factors = None\<rparr>" by simp
    with True dec show ?thesis by simp
  next
    case False
    then obtain user device where u: "map_of (users s) (req_user_id request) = Some user"
      and d: "map_of (devices s) (req_device_id request) = Some device" by auto
    from assms(1) u have ur: "0 \<le> risk_score user \<and> risk_score user \<le> 1"
      using map_of_list_all [OF u, of "\<lambda>(k, user). 0 \<le> risk_score user \<and> risk_score user \<le> 1"]
      by (simp add: scores_in_range_def)
    from assms(1) d have dr: "0 \<le> trust_score device \<and> trust_score device \<le> 1"
      using map_of_list_all [OF d, of "\<lambda>(k, device). 0 \<le> trust_score device \<and> trust_score device \<le> 1"]
      by (simp add: scores_in_range_def)
    obtain t where t: "get_time_risk local_hour (timestamp request) = Inr t"
      using assms(2) evaluate_known_raises [OF u d, of local_hour]
      by (cases "get_time_risk local_hour (timestamp request)") auto
    note tb = time_risk_bounds [OF t]
    note sb = sensitivity_bounds [of "resource request"]
    from evaluate_known [OF u d t] assms(2)
    have rf: "risk_factors r = Some
                    \<lparr>rf_user_risk = risk_score user * 0.3,
                     rf_device_risk = (1 - trust_score device) * 0.3,
                     rf_resource_sensitivity = get_resource_sensitivity (resource request) * 0.25,
                     rf_time_risk = (1 - t) * 0.15\<rparr>"
      and ts: "result_trust_score r = 1 - sum_values
                    \<lparr>rf_user_risk = risk_score user * 0.3,
                     rf_device_risk = (1 - trust_score device) * 0.3,
                     rf_resource_sensitivity = get_resource_sensitivity (resource request) * 0.25,
                     rf_time_risk = (1 - t) * 0.15\<rparr>"
      by auto
    have "0 \<le> returned_risk r \<and> returned_risk r \<le> 1"
      using ur dr tb sb by (simp add: returned_risk_def rf sum_values_def) argo
    moreover have "result_trust_score r = 1 - returned_risk r"
      by (simp add: returned_risk_def rf ts)
    ultimately show ?thesis using False dec rf by simp
  qed
qed

theorem evaluation_result_consistent_witness:
  "\<exists>r. evaluate_zerotrust_access utc_hour new_simulator (alice_request 1700000000) = Inr r \<and>
        decision r \<in> {ALLOW, CHALLENGE, DENY} \<and>
        result_trust_score r = 1 - returned_risk r \<and>
        0 \<le> returned_risk r \<and> returned_risk r \<le> 1"
proof -
  have t: "get_time_risk utc_hour (timestamp (alice_request 1700000000)) = Inr 0.2"
    using utc_late by (simp add: get_time_risk_def alice_request_def)
  have u: "map_of (users new_simulator) (req_user_id (alice_request 1700000000)) =
             Some \<lparr>user_id = ''alice.finance'', name = ''Alice Johnson'', role = ''CFO'',
                   risk_score = 0.3, department = ''finance''\<rparr>"
    using alice_lookup by (simp add: alice_request_def)
  have d: "map_of (devices new_simulator) (req_device_id (alice_request 1700000000)) =
             Some \<lparr>device_id = ''ws-finance-01'', device_type = WORKSTATION,
                   ip_address = ''192.168.2.10'', trust_score = 0.8, is_compromised = False,
                   location = ''office'', pos_x = 200, pos_y = 300\<rparr>"
    using ws_lookup by (simp add: alice_request_def)
  from evaluate_known [OF u d t] obtain r where
    r: "evaluate_zerotrust_access utc_hour new_simulator (alice_request 1700000000) = Inr r"
    by blast
  from evaluation_result_consistent [OF new_scores r] u d r show ?thesis by auto
qed

text \<open>The claim as first stated takes the trust score to be 1 minus the sum of the returned
  risk factors for every request. A request by an unknown user returns no risk factors
  and the trust score 0.0, which is not 1 minus the empty sum.\<close>

theorem trust_score_counterexample:
  "evaluate_zerotrust_access utc_hour new_simulator
     \<lparr>req_user_id = ''mallory'', req_device_id = ''printer-01'', resource = ''email'',
      action = ''access'', timestamp = 1700000000\<rparr> =
     Inr \<lparr>decision = DENY, reason = ''Unknown user or device'', result_trust_score = 0,
          risk_factors = None\<rparr> \<and>
   result_trust_score \<lparr>decision = DENY, reason = ''Unknown user or device'',
          result_trust_score = 0, risk_factors = None\<rparr> \<noteq>
   1 - returned_risk \<lparr>decision = DENY, reason = ''Unknown user or device'',
          result_trust_score = 0, risk_factors = None\<rparr>"
  using mallory_unknown by (simp add: evaluate_unknown returned_risk_def)

section \<open>Properties of the engine state\<close>

subsection \<open>What the loops and the operations leave unchanged\<close>

lemma set_compromised_static:
  "map (\<lambda>(k, device). (k, device_static device)) (set_compromised ds t v) =
   map (\<lambda>(k, device). (k, device_static device)) ds"
  by (induction ds) (auto simp: set_compromised_def device_static_def)

lemma set_compromised_keys: "map fst (set_compromised ds t v) = map fst ds"
  by (induction ds) (auto simp: set_compromised_def)

lemma set_compromised_length: "length (set_compromised ds t v) = length ds"
  by (simp add: set_compromised_def)

lemma map_of_set_compromised:
  "map_of (set_compromised ds t v) k =
     map_option (\<lambda>d. if k = t then d\<lparr>is_compromised := v\<rparr> else d) (map_of ds k)"
  by (induction ds) (auto simp: set_compromised_def)

lemma traditional_loop_static:
  "traditional_loop env aid entry targets k c ds evs = (err, c', ds', evs') \<Longrightarrow>
   map (\<lambda>(k, device). (k, device_static device)) ds' =
   map (\<lambda>(k, device). (k, device_static device)) ds"
proof (induction targets arbitrary: k c ds evs)
  case Nil
  then show ?case by simp
next
  case (Cons target rest)
  show ?case
  proof (cases "target = entry")
    case True
    with Cons show ?thesis by simp
  next
    case False
    show ?thesis
    proof (cases "map_of ds target")
      case None
      with False Cons.prems show ?thesis by (simp add: Let_def)
    next
      case (Some d)
      show ?thesis
      proof (cases "choice (env_choice env k) (removeAll target (set_add c target))")
        case (Inl e)
        with False Some Cons.prems show ?thesis
          by (auto simp: Let_def set_compromised_static)
      next
        case (Inr source)
        with False Some Cons.prems have
          "traditional_loop env aid entry rest (Suc k) (set_add c target)
             (set_compromised ds target True)
             (evs @ [AttackProgress
                \<lparr>step_source = source, step_target = target, step_result = ''success'',
                 step_model = ''traditional'',
                 step_reason = ''Lateral movement via shared credentials/network access''\<rparr>
                (set_add c target) aid]) = (err, c', ds', evs')"
          by (simp add: Let_def)
        from Cons.IH [OF this] show ?thesis by (simp add: set_compromised_static)
      qed
    qed
  qed
qed

lemma zerotrust_loop_static:
  "zerotrust_loop env aid entry targets i c ds evs = (err, c', ds', evs') \<Longrightarrow>
   map (\<lambda>(k, device). (k, device_static device)) ds' =
   map (\<lambda>(k, device). (k, device_static device)) ds"
proof (induction targets arbitrary: i c ds evs)
  case Nil
  then show ?case by simp
next
  case (Cons target rest)
  show ?case
  proof (cases "env_random env i < 0.1")
    case False
    with Cons.prems have
      "\<exists>evs2. zerotrust_loop env aid entry rest (Suc i) c ds evs2 = (err, c', ds', evs')"
      by (auto simp: Let_def)
    then show ?thesis using Cons.IH by blast
  next
    case True
    show ?thesis
    proof (cases "map_of ds target")
      case None
      with True Cons.prems show ?thesis by (simp add: Let_def)
    next
      case (Some d)
      with True Cons.prems have
        "\<exists>evs2. zerotrust_loop env aid entry rest (Suc i) (set_add c target)
            (set_compromised ds target True) evs2 = (err, c', ds', evs')"
        by (auto simp: Let_def)
      then obtain evs2 where
        "zerotrust_loop env aid entry rest (Suc i) (set_add c target)
            (set_compromised ds target True) evs2 = (err, c', ds', evs')" by blast
      from Cons.IH [OF this] show ?thesis by (simp add: set_compromised_static)
    qed
  qed
qed

lemma edges_graph_get: "graph_get g k = (ns, g') \<Longrightarrow>
   concat (map (\<lambda>(a, ns). map (\<lambda>b. (a, b)) ns) g') = concat (map (\<lambda>(a, ns). map (\<lambda>b. (a, b)) ns) g)"
  by (auto simp: graph_get_def split: option.splits)

lemma graph_get_cases: "graph_get g k = (ns, g') \<Longrightarrow> g' = g \<or> g' = g @ [(k, [])]"
  by (auto simp: graph_get_def split: option.splits)

lemma traditional_attack_state:
  "\<exists>ds'. final_state (simulate_traditional_attack env aid entry s) = s\<lparr>devices := ds'\<rparr> \<and>
         map (\<lambda>(k, device). (k, device_static device)) ds' =
         map (\<lambda>(k, device). (k, device_static device)) (devices s)"
proof (cases "map_of (devices s) entry")
  case None
  then have "final_state (simulate_traditional_attack env aid entry s) = s\<lparr>devices := devices s\<rparr>"
    by (simp add: simulate_traditional_attack_def)
  then show ?thesis by blast
next
  case (Some d)
  obtain err c' ds' evs' where
    loop: "traditional_loop env aid entry (map fst (devices s)) 0 [entry]
             (set_compromised (devices s) entry True)
             [AttackProgress
                \<lparr>step_source = ''external'', step_target = entry, step_result = ''success'',
                 step_model = ''traditional'',
                 step_reason = ''Initial compromise via phishing/malware''\<rparr> [entry] aid] =
           (err, c', ds', evs')"
    by (metis prod_cases4)
  have st: "final_state (simulate_traditional_attack env aid entry s) = s\<lparr>devices := ds'\<rparr>"
    using Some loop
    by (cases err; cases "containment (length (devices s)) (length c')")
       (simp_all add: simulate_traditional_attack_def Let_def)
  from traditional_loop_static [OF loop] st show ?thesis
    by (auto simp: set_compromised_static)
qed

lemma zerotrust_attack_state:
  "\<exists>ds' g' ns. final_state (simulate_zerotrust_attack env aid entry s) =
                 s\<lparr>devices := ds', network_graph := g'\<rparr> \<and>
         map (\<lambda>(k, device). (k, device_static device)) ds' =
         map (\<lambda>(k, device). (k, device_static device)) (devices s) \<and>
         (g' = network_graph s \<or>
          (map_of (devices s) entry \<noteq> None \<and> graph_get (network_graph s) entry = (ns, g')))"
proof (cases "map_of (devices s) entry")
  case None
  then have "final_state (simulate_zerotrust_attack env aid entry s) =
               s\<lparr>devices := devices s, network_graph := network_graph s\<rparr>"
    by (simp add: simulate_zerotrust_attack_def)
  then show ?thesis by blast
next
  case (Some d)
  obtain ns g' where gg: "graph_get (network_graph s) entry = (ns, g')"
    by (cases "graph_get (network_graph s) entry") auto
  obtain err c' ds' evs' where
    loop: "zerotrust_loop env aid entry (take 4 ns) 0 [entry]
             (set_compromised (devices s) entry True)
             [AttackProgress
                \<lparr>step_source = ''external'', step_target = entry, step_result = ''success'',
                 step_model = ''zerotrust'',
                 step_reason = ''Initial compromise via social engineering''\<rparr> [entry] aid] =
           (err, c', ds', evs')"
    by (metis prod_cases4)
  have st: "final_state (simulate_zerotrust_attack env aid entry s) =
              s\<lparr>devices := ds', network_graph := g'\<rparr>"
    using Some gg loop
    by (cases err; cases "containment (length ds') (length c')")
       (simp_all add: simulate_zerotrust_attack_def Let_def)
  from zerotrust_loop_static [OF loop] st gg Some show ?thesis
    by (auto simp: set_compromised_static)
qed

lemma lateral_attack_state:
  "\<exists>ds' g' ns k. final_state (simulate_lateral_movement_attack env model s) =
                 s\<lparr>devices := ds', network_graph := g'\<rparr> \<and>
         map (\<lambda>(k, device). (k, device_static device)) ds' =
         map (\<lambda>(k, device). (k, device_static device)) (devices s) \<and>
         (g' = network_graph s \<or>
          (map_of (devices s) k \<noteq> None \<and> graph_get (network_graph s) k = (ns, g')))"
proof (cases "choice (env_choice env 0) (non_router_devices s)")
  case (Inl e)
  then have "final_state (simulate_lateral_movement_attack env model s) =
               s\<lparr>devices := devices s, network_graph := network_graph s\<rparr>"
    by (simp add: simulate_lateral_movement_attack_def)
  then show ?thesis by blast
next
  case (Inr entry)
  show ?thesis
  proof (cases "model = TRADITIONAL")
    case True
    from traditional_attack_state
      [of "env\<lparr>env_choice := \<lambda>k. env_choice env (Suc k)\<rparr>" "env_uuid4 env" entry s]
    obtain ds' where
      "final_state (simulate_traditional_attack (env\<lparr>env_choice := \<lambda>k. env_choice env (Suc k)\<rparr>)
         (env_uuid4 env) entry s) = s\<lparr>devices := ds'\<rparr>"
      "map (\<lambda>(k, device). (k, device_static device)) ds' =
       map (\<lambda>(k, device). (k, device_static device)) (devices s)"
      by auto
    moreover have "s\<lparr>devices := ds'\<rparr> = s\<lparr>devices := ds', network_graph := network_graph s\<rparr>"
      by simp
    ultimately have
      "final_state (simulate_lateral_movement_attack env model s) =
         s\<lparr>devices := ds', network_graph := network_graph s\<rparr> \<and>
       map (\<lambda>(k, device). (k, device_static device)) ds' =
       map (\<lambda>(k, device). (k, device_static device)) (devices s) \<and>
       (network_graph s = network_graph s \<or>
          (map_of (devices s) entry \<noteq> None \<and>
           graph_get (network_graph s) entry = ([], network_graph s)))"
      using Inr True by (simp add: simulate_lateral_movement_attack_def Let_def)
    then show ?thesis by blast
  next
    case False
    from zerotrust_attack_state
      [of "env\<lparr>env_choice := \<lambda>k. env_choice env (Suc k)\<rparr>" "env_uuid4 env" entry s]
    show ?thesis using Inr False
      by (simp add: simulate_lateral_movement_attack_def Let_def) blast
  qed
qed

lemma stats_increment_decision:
  "stats_increment st (AccessDecision_value d) =
     Inr (case d of ALLOW \<Rightarrow> st\<lparr>allowed := allowed st + 1\<rparr>
                  | DENY \<Rightarrow> st\<lparr>denied := denied st + 1\<rparr>
                  | CHALLENGE \<Rightarrow> st\<lparr>challenged := challenged st + 1\<rparr>)"
  by (cases d) (simp_all add: stats_increment_def)

lemma stats_increment_total:
  "stats_increment st ''total_requests'' = Inr (st\<lparr>total_requests := total_requests st + 1\<rparr>)"
  by (simp add: stats_increment_def)

lemma count_decision_twice:
  "(case d of ALLOW \<Rightarrow> st\<lparr>allowed := allowed st + 1\<rparr>
            | DENY \<Rightarrow> st\<lparr>denied := denied st + 1\<rparr>
            | CHALLENGE \<Rightarrow> st\<lparr>challenged := challenged st + 1\<rparr>)
     \<lparr>total_requests :=
        total_requests (case d of ALLOW \<Rightarrow> st\<lparr>allowed := allowed st + 1\<rparr>
            | DENY \<Rightarrow> st\<lparr>denied := denied st + 1\<rparr>
            | CHALLENGE \<Rightarrow> st\<lparr>challenged := challenged st + 1\<rparr>) + 1\<rparr> = count_decision d st"
  by (cases d) (simp_all add: count_decision_def)

lemma activity_step_cases:
  "(\<exists>e. activity_step env i s = (Some e, s, [])) \<or>
   (\<exists>d ev. activity_step env i s = (None, s\<lparr>activity_stats := count_decision d (activity_stats s)\<rparr>, [ev]))"
proof (cases "choice (env_choice env (3 * i)) (map fst (users s))")
  case (Inl e)
  then show ?thesis by (simp add: activity_step_def)
next
  case u: (Inr uid)
  show ?thesis
  proof (cases "choice (env_choice env (3 * i + 1)) (non_router_devices s)")
    case (Inl e)
    with u show ?thesis by (simp add: activity_step_def)
  next
    case d: (Inr did)
    show ?thesis
    proof (cases "choice (env_choice env (3 * i + 2)) resources")
      case (Inl e)
      with u d show ?thesis by (simp add: activity_step_def)
    next
      case r: (Inr res)
      show ?thesis
      proof (cases "evaluate_zerotrust_access (env_local_hour env) s
                      \<lparr>req_user_id = uid, req_device_id = did, resource = res,
                       action = ''access'', timestamp = env_time env (2 * i)\<rparr>")
        case (Inl e)
        with u d r show ?thesis by (simp add: activity_step_def)
      next
        case (Inr result)
        with u d r show ?thesis
          by (simp add: activity_step_def Let_def stats_increment_decision stats_increment_total
                count_decision_twice) blast
      qed
    qed
  qed
qed

lemma count_decision_consistent:
  "stats_consistent st \<Longrightarrow> stats_consistent (count_decision d st)"
  by (cases d) (simp_all add: stats_consistent_def count_decision_def)

lemma activity_step_state:
  "\<exists>st'. fst (snd (activity_step env i s)) = s\<lparr>activity_stats := st'\<rparr> \<and>
         (stats_consistent (activity_stats s) \<longrightarrow> stats_consistent st')"
proof -
  have "s = s\<lparr>activity_stats := activity_stats s\<rparr>" by simp
  then show ?thesis
    using activity_step_cases [of env i s] count_decision_consistent
    by (metis fst_conv snd_conv)
qed

lemma activity_loop_state:
  "\<exists>st'. fst (snd (activity_loop env steps s evs)) = s\<lparr>activity_stats := st'\<rparr> \<and>
         (stats_consistent (activity_stats s) \<longrightarrow> stats_consistent st')"
proof (induction steps arbitrary: s evs)
  case Nil
  have "s = s\<lparr>activity_stats := activity_stats s\<rparr>" by simp
  then show ?case by (metis activity_loop.simps(1) fst_conv snd_conv)
next
  case (Cons i rest)
  obtain err s1 ev where step: "activity_step env i s = (err, s1, ev)"
    by (metis prod_cases3)
  from activity_step_state [of env i s] step obtain st1 where
    s1: "s1 = s\<lparr>activity_stats := st1\<rparr>"
    and c1: "stats_consistent (activity_stats s) \<longrightarrow> stats_consistent st1"
    by auto
  show ?case
  proof (cases err)
    case (Some e)
    with step s1 c1 show ?thesis by auto
  next
    case None
    from Cons.IH [of s1 "evs @ ev"] obtain st2 where
      "fst (snd (activity_loop env rest s1 (evs @ ev))) = s1\<lparr>activity_stats := st2\<rparr>"
      "stats_consistent (activity_stats s1) \<longrightarrow> stats_consistent st2"
      by blast
    with None step s1 c1 show ?thesis by auto
  qed
qed

lemma reset_devices_clean:
  "list_all (\<lambda>(k, device). \<not> is_compromised device)
     (map (\<lambda>(k, device). (k, device\<lparr>is_compromised := False\<rparr>)) ds)"
  by (induction ds) auto

lemma reset_devices_idem:
  "list_all (\<lambda>(k, device). \<not> is_compromised device) ds \<Longrightarrow>
   map (\<lambda>(k, device). (k, device\<lparr>is_compromised := False\<rparr>)) ds = ds"
  by (induction ds) auto

lemma new_clean: "clean new_simulator"
  by code_simp

lemma printer_not_clean: "\<not> clean compromised_printer"
  by code_simp

subsection \<open>Reset\<close>

text \<open>
  Claim C7. Whatever the state is, so after any sequence of activity and attack runs,
  \<^verbatim>\<open>reset_network\<close> leaves the clean state: the compromised flag of every device is
  false, the four counters are zero and the attack sessions are empty. A second reset
  changes nothing, and a reset of a state that is clean already changes nothing.
\<close>

theorem reset_network_clean:
  "clean (reset_network s) \<and>
   reset_network (reset_network s) = reset_network s \<and>
   (clean s \<longrightarrow> reset_network s = s)"
proof -
  have a: "clean (reset_network s)"
    by (simp add: clean_def reset_network_def reset_devices_clean)
  have c: "reset_network t = t" if "clean t" for t
    using that by (simp add: clean_def reset_network_def reset_devices_idem)
  from a c [OF a] c show ?thesis by blast
qed

theorem reset_network_clean_witness:
  "\<not> clean compromised_printer \<and> clean (reset_network compromised_printer) \<and>
   reset_network (reset_network compromised_printer) = reset_network compromised_printer \<and>
   reset_network new_simulator = new_simulator"
  using reset_network_clean [of compromised_printer] reset_network_clean [of new_simulator]
        new_clean printer_not_clean
  by simp

subsection \<open>The frame of the operations\<close>

text \<open>
  Claim C8. Every operation of the engine (access evaluation, activity batch, the attack
  simulations and reset) leaves the devices as they are up to their compromised flags
  (so their trust scores, types, addresses and positions), the users and the adjacency
  relation. The dictionary of the graph is the same afterwards, or has one more key with
  the empty set of neighbours: the entry point of a zero-trust attack, a device that was
  no key of it. What an operation changes is among the compromised flags, the counters and
  the attack sessions.
\<close>

theorem operations_keep_topology:
  "same_topology s (execute c s) \<and>
   (network_graph (execute c s) = network_graph s \<or>
    (\<exists>k. map_of (devices s) k \<noteq> None \<and> map_of (network_graph s) k = None \<and>
         network_graph (execute c s) = network_graph s @ [(k, [])]))"
proof (cases c)
  case (EvaluateAccess lh request)
  then show ?thesis by (simp add: same_topology_def)
next
  case (StartActivity env)
  from activity_loop_state [of env "[0..<10]" s "[]"] obtain st' where
    "fst (snd (simulate_normal_activity env s)) = s\<lparr>activity_stats := st'\<rparr>"
    by (auto simp: simulate_normal_activity_def)
  with StartActivity show ?thesis
    by (simp add: same_topology_def static_devices_def edges_def)
next
  case (StartAttack env model)
  from lateral_attack_state [of env model s] obtain ds' g' ns k where
    st: "final_state (simulate_lateral_movement_attack env model s) =
           s\<lparr>devices := ds', network_graph := g'\<rparr>"
    and ds: "map (\<lambda>(k, device). (k, device_static device)) ds' =
             map (\<lambda>(k, device). (k, device_static device)) (devices s)"
    and g: "g' = network_graph s \<or>
            (map_of (devices s) k \<noteq> None \<and> graph_get (network_graph s) k = (ns, g'))"
    by blast
  from g have e: "concat (map (\<lambda>(a, ns). map (\<lambda>b. (a, b)) ns) g') =
                  concat (map (\<lambda>(a, ns). map (\<lambda>b. (a, b)) ns) (network_graph s))"
    using edges_graph_get by blast
  from g have "g' = network_graph s \<or>
      (map_of (devices s) k \<noteq> None \<and> map_of (network_graph s) k = None \<and>
       g' = network_graph s @ [(k, [])])"
    by (auto simp: graph_get_def split: option.splits)
  with StartAttack st ds e show ?thesis
    by (simp add: same_topology_def static_devices_def edges_def) blast
next
  case (TraditionalAttack env aid entry)
  from traditional_attack_state [of env aid entry s] obtain ds' where
    "final_state (simulate_traditional_attack env aid entry s) = s\<lparr>devices := ds'\<rparr>"
    "map (\<lambda>(k, device). (k, device_static device)) ds' =
     map (\<lambda>(k, device). (k, device_static device)) (devices s)"
    by blast
  with TraditionalAttack show ?thesis
    by (simp add: same_topology_def static_devices_def edges_def)
next
  case (ZeroTrustAttack env aid entry)
  from zerotrust_attack_state [of env aid entry s] obtain ds' g' ns where
    st: "final_state (simulate_zerotrust_attack env aid entry s) =
           s\<lparr>devices := ds', network_graph := g'\<rparr>"
    and ds: "map (\<lambda>(k, device). (k, device_static device)) ds' =
             map (\<lambda>(k, device). (k, device_static device)) (devices s)"
    and g: "g' = network_graph s \<or>
            (map_of (devices s) entry \<noteq> None \<and> graph_get (network_graph s) entry = (ns, g'))"
    by blast
  from g have e: "concat (map (\<lambda>(a, ns). map (\<lambda>b. (a, b)) ns) g') =
                  concat (map (\<lambda>(a, ns). map (\<lambda>b. (a, b)) ns) (network_graph s))"
    using edges_graph_get by blast
  from g have "g' = network_graph s \<or>
      (map_of (devices s) entry \<noteq> None \<and> map_of (network_graph s) entry = None \<and>
       g' = network_graph s @ [(entry, [])])"
    by (auto simp: graph_get_def split: option.splits)
  with ZeroTrustAttack st ds e show ?thesis
    by (simp add: same_topology_def static_devices_def edges_def) blast
next
  case Reset
  then show ?thesis
    by (auto simp: same_topology_def static_devices_def edges_def reset_network_def
          device_static_def)
qed

theorem operations_keep_topology_witness:
  "same_topology new_simulator (execute (TraditionalAttack example_env ''attack-1'' ''printer-01'') new_simulator) \<and>
   same_topology compromised_printer (execute Reset compromised_printer)"
  using operations_keep_topology [of new_simulator "TraditionalAttack example_env ''attack-1'' ''printer-01''"]
        operations_keep_topology [of compromised_printer Reset]
  by simp

subsection \<open>The counters of the activity generator\<close>

lemma execute_stats:
  "stats_consistent (activity_stats s) \<Longrightarrow> stats_consistent (activity_stats (execute c s))"
proof (cases c)
  case (EvaluateAccess lh request)
  assume "stats_consistent (activity_stats s)"
  with EvaluateAccess show ?thesis by simp
next
  case (StartActivity env)
  assume a: "stats_consistent (activity_stats s)"
  from activity_loop_state [of env "[0..<10]" s "[]"] a StartActivity show ?thesis
    by (auto simp: simulate_normal_activity_def)
next
  case (StartAttack env model)
  assume a: "stats_consistent (activity_stats s)"
  from lateral_attack_state [of env model s] a StartAttack show ?thesis by auto
next
  case (TraditionalAttack env aid entry)
  assume a: "stats_consistent (activity_stats s)"
  from traditional_attack_state [of env aid entry s] a TraditionalAttack show ?thesis by auto
next
  case (ZeroTrustAttack env aid entry)
  assume a: "stats_consistent (activity_stats s)"
  from zerotrust_attack_state [of env aid entry s] a ZeroTrustAttack show ?thesis by auto
next
  case Reset
  then show ?thesis by (simp add: reset_network_def stats_consistent_def)
qed

lemma fold_execute_stats:
  "stats_consistent (activity_stats s) \<Longrightarrow>
   stats_consistent (activity_stats (fold execute cmds s))"
  by (induction cmds arbitrary: s) (simp_all add: execute_stats)

lemma new_stats_consistent: "stats_consistent (activity_stats new_simulator)"
  by code_simp

lemma example_batch:
  "activity_stats (run [StartActivity example_env]) =
     \<lparr>allowed = 6, denied = 2, challenged = 2, total_requests = 10\<rparr>"
  by code_simp

text \<open>
  Claim C10. The counters satisfy allowed + denied + challenged = total_requests in a new
  simulator and after a reset. A step of the activity generator either raises before it
  counts, and leaves the state as it is, or counts its request: the counter of the
  decision and the total are one higher, the other two counters are the same. So a step
  keeps the equation, every operation of the engine keeps it, and it holds in every
  state the operations reach from a new simulator.
\<close>

theorem activity_stats_invariant:
  "stats_consistent (activity_stats new_simulator) \<and>
   stats_consistent (activity_stats (reset_network s)) \<and>
   ((\<exists>e. activity_step env i s = (Some e, s, [])) \<or>
    (\<exists>d ev. activity_step env i s =
       (None, s\<lparr>activity_stats := count_decision d (activity_stats s)\<rparr>, [ev]))) \<and>
   (stats_consistent (activity_stats s) \<longrightarrow>
      stats_consistent (activity_stats (fst (snd (activity_step env i s))))) \<and>
   (stats_consistent (activity_stats s) \<longrightarrow> stats_consistent (activity_stats (execute c s))) \<and>
   stats_consistent (activity_stats (run cmds))"
proof -
  have r: "stats_consistent (activity_stats (reset_network s))"
    by (simp add: reset_network_def stats_consistent_def)
  have st: "stats_consistent (activity_stats s) \<longrightarrow>
      stats_consistent (activity_stats (fst (snd (activity_step env i s))))"
    using activity_step_state [of env i s] by auto
  have run: "stats_consistent (activity_stats (run cmds))"
    unfolding run_def by (rule fold_execute_stats [OF new_stats_consistent])
  show ?thesis
    using new_stats_consistent r activity_step_cases [of env i s] st execute_stats [of s c] run
    by blast
qed

theorem activity_stats_invariant_witness:
  "stats_consistent (activity_stats (run [StartActivity example_env])) \<and>
   activity_stats (run [StartActivity example_env]) =
     \<lparr>allowed = 6, denied = 2, challenged = 2, total_requests = 10\<rparr> \<and>
   stats_consistent (activity_stats (fst (snd (activity_step example_env 0 new_simulator)))) \<and>
   stats_consistent (activity_stats (execute Reset (run [StartActivity example_env])))"
  using activity_stats_invariant [of new_simulator example_env 0 Reset "[StartActivity example_env]"]
        activity_stats_invariant [of "run [StartActivity example_env]" example_env 0 Reset "[]"]
        example_batch
  by simp

section \<open>Properties of the attack simulator\<close>

subsection \<open>The zero-trust attack is contained\<close>

lemma set_set_add: "set (set_add c t) = insert t (set c)"
  by (auto simp: set_add_def)

lemma length_set_add: "length (set_add c t) \<le> Suc (length c)"
  by (simp add: set_add_def)

lemma flag_set_compromised:
  "(case map_of (set_compromised ds t v) k of Some device \<Rightarrow> is_compromised device | None \<Rightarrow> False)
   \<Longrightarrow> k = t \<or> (case map_of ds k of Some device \<Rightarrow> is_compromised device | None \<Rightarrow> False)"
  by (auto simp: map_of_set_compromised split: option.splits if_splits)

lemma zerotrust_loop_bounds:
  "zerotrust_loop env aid entry targets i c ds evs = (err, c', ds', evs') \<Longrightarrow>
   set c' \<subseteq> set c \<union> set targets \<and>
   length c' \<le> length c + length targets \<and>
   (\<forall>k. (case map_of ds' k of Some device \<Rightarrow> is_compromised device | None \<Rightarrow> False) \<longrightarrow>
        (case map_of ds k of Some device \<Rightarrow> is_compromised device | None \<Rightarrow> False) \<or>
        k \<in> set targets) \<and>
   (\<forall>r. AttackComplete r \<in> set evs' \<longrightarrow> AttackComplete r \<in> set evs) \<and>
   (\<forall>st nodes a. AttackProgress st nodes a \<in> set evs' \<longrightarrow>
        AttackProgress st nodes a \<in> set evs \<or>
        (set nodes \<subseteq> set c \<union> set targets \<and> length nodes \<le> length c + length targets))"
proof (induction targets arbitrary: i c ds evs)
  case Nil
  then show ?case by auto
next
  case (Cons target rest)
  show ?case
  proof (cases "env_random env i < 0.1")
    case False
    with Cons.prems have
      loop: "zerotrust_loop env aid entry rest (Suc i) c ds
          (evs @ [AttackProgress
                \<lparr>step_source = entry, step_target = target, step_result = ''blocked'',
                 step_model = ''zerotrust'',
                 step_reason = ''Zero-trust policy blocked lateral movement - continuous verification failed''\<rparr>
                c aid]) = (err, c', ds', evs')"
      by (simp add: Let_def)
    note ih = Cons.IH [OF loop]
    have a: "set c' \<subseteq> set c \<union> set (target # rest)"
      using ih by auto
    have b: "length c' \<le> length c + length (target # rest)"
      using ih by simp
    have f: "\<forall>k. (case map_of ds' k of Some device \<Rightarrow> is_compromised device | None \<Rightarrow> False) \<longrightarrow>
      (case map_of ds k of Some device \<Rightarrow> is_compromised device | None \<Rightarrow> False) \<or>
      k \<in> set (target # rest)"
      using ih by auto
    have e: "\<forall>r. AttackComplete r \<in> set evs' \<longrightarrow> AttackComplete r \<in> set evs"
      using ih by auto
    have p: "\<forall>st nodes a. AttackProgress st nodes a \<in> set evs' \<longrightarrow>
      AttackProgress st nodes a \<in> set evs \<or>
      (set nodes \<subseteq> set c \<union> set (target # rest) \<and>
       length nodes \<le> length c + length (target # rest))"
    proof (intro allI impI)
      fix st nodes a
      assume asm: "AttackProgress st nodes a \<in> set evs'"
      from ih have "AttackProgress st nodes a \<in> set evs' \<longrightarrow>
        AttackProgress st nodes a \<in> set (evs @ [AttackProgress
                \<lparr>step_source = entry, step_target = target, step_result = ''blocked'',
                 step_model = ''zerotrust'',
                 step_reason = ''Zero-trust policy blocked lateral movement - continuous verification failed''\<rparr>
                c aid]) \<or>
        (set nodes \<subseteq> set c \<union> set rest \<and> length nodes \<le> length c + length rest)"
        by blast
      with asm have "AttackProgress st nodes a \<in> set evs \<or> nodes = c \<or>
        (set nodes \<subseteq> set c \<union> set rest \<and> length nodes \<le> length c + length rest)"
        by auto
      then show "AttackProgress st nodes a \<in> set evs \<or>
        (set nodes \<subseteq> set c \<union> set (target # rest) \<and>
         length nodes \<le> length c + length (target # rest))"
        by auto
    qed
    from a b f e p show ?thesis by blast
  next
    case True
    show ?thesis
    proof (cases "map_of ds target")
      case None
      with True Cons.prems have "c' = set_add c target" "ds' = ds" "evs' = evs"
        by (simp_all add: Let_def)
      then show ?thesis using length_set_add [of c target] by (auto simp: set_set_add)
    next
      case (Some d)
      with True Cons.prems have
        loop: "zerotrust_loop env aid entry rest (Suc i) (set_add c target)
            (set_compromised ds target True)
            (evs @ [AttackProgress
                \<lparr>step_source = entry, step_target = target, step_result = ''success'',
                 step_model = ''zerotrust'',
                 step_reason = ''Lateral movement succeeded despite zero-trust (rare vulnerability)''\<rparr>
                (set_add c target) aid]) = (err, c', ds', evs')"
        by (simp add: Let_def)
      note ih = Cons.IH [OF loop]
      have a: "set c' \<subseteq> set c \<union> set (target # rest)"
        using ih by (auto simp: set_set_add)
      have b: "length c' \<le> length c + length (target # rest)"
        using ih length_set_add [of c target] by simp
      have f: "\<forall>k. (case map_of ds' k of Some device \<Rightarrow> is_compromised device | None \<Rightarrow> False) \<longrightarrow>
        (case map_of ds k of Some device \<Rightarrow> is_compromised device | None \<Rightarrow> False) \<or>
        k \<in> set (target # rest)"
        using ih flag_set_compromised [of ds target True] by auto
      have e: "\<forall>r. AttackComplete r \<in> set evs' \<longrightarrow> AttackComplete r \<in> set evs"
        using ih by auto
      have p: "\<forall>st nodes a. AttackProgress st nodes a \<in> set evs' \<longrightarrow>
        AttackProgress st nodes a \<in> set evs \<or>
        (set nodes \<subseteq> set c \<union> set (target # rest) \<and>
         length nodes \<le> length c + length (target # rest))"
      proof (intro allI impI)
        fix st nodes a
        assume asm: "AttackProgress st nodes a \<in> set evs'"
        from ih have "AttackProgress st nodes a \<in> set evs' \<longrightarrow>
          AttackProgress st nodes a \<in> set (evs @ [AttackProgress
                \<lparr>step_source = entry, step_target = target, step_result = ''success'',
                 step_model = ''zerotrust'',
                 step_reason = ''Lateral movement succeeded despite zero-trust (rare vulnerability)''\<rparr>
                (set_add c target) aid]) \<or>
          (set nodes \<subseteq> set (set_add c target) \<union> set rest \<and>
           length nodes \<le> length (set_add c target) + length rest)"
          by blast
        with asm have "AttackProgress st nodes a \<in> set evs \<or> nodes = set_add c target \<or>
          (set nodes \<subseteq> set (set_add c target) \<union> set rest \<and>
           length nodes \<le> length (set_add c target) + length rest)"
          by auto
        then show "AttackProgress st nodes a \<in> set evs \<or>
          (set nodes \<subseteq> set c \<union> set (target # rest) \<and>
           length nodes \<le> length c + length (target # rest))"
          using length_set_add [of c target] by (auto simp: set_set_add)
      qed
      from a b f e p show ?thesis by blast
    qed
  qed
qed


lemma length_take4: "length (take 4 ns) = min 4 (length ns)"
  by simp

lemma lucky_attack:
  "compromised_set (simulate_zerotrust_attack lucky_env ''attack-1'' ''firewall-01'' new_simulator) =
     [''firewall-01'', ''dc-server-01'', ''db-server-01'', ''ws-finance-01'', ''ws-finance-02'']"
  by code_simp

lemma firewall_degree: "degree new_simulator ''firewall-01'' = 8"
  by code_simp

text \<open>
  Claim C3. For every state, entry point and sequence of random draws, a run of the
  zero-trust attack has at most 1 + min(4, degree of the entry point) devices in its set
  \<^verbatim>\<open>compromised\<close>, all of them the entry point or among the first four neighbours of the
  entry point. The devices whose compromised flag the run sets are among these as well
  and as few, and so are the count that the final event reports and the lists of
  compromised nodes of the progress events. This holds when the run ends in an exception
  too (an entry point or a neighbour that is no device).
\<close>

theorem zerotrust_attack_contained:
  "length (compromised_set (simulate_zerotrust_attack env attack_id entry_point s))
     \<le> 1 + min 4 (degree s entry_point) \<and>
   set (compromised_set (simulate_zerotrust_attack env attack_id entry_point s))
     \<subseteq> insert entry_point (set (take 4 (neighbors_of s entry_point))) \<and>
   {k. device_compromised (final_state (simulate_zerotrust_attack env attack_id entry_point s)) k \<and>
       \<not> device_compromised s k}
     \<subseteq> insert entry_point (set (take 4 (neighbors_of s entry_point))) \<and>
   card {k. device_compromised (final_state (simulate_zerotrust_attack env attack_id entry_point s)) k \<and>
            \<not> device_compromised s k}
     \<le> 1 + min 4 (degree s entry_point) \<and>
   (\<forall>r. AttackComplete r \<in> set (emitted (simulate_zerotrust_attack env attack_id entry_point s)) \<longrightarrow>
        compromised_count r \<le> 1 + min 4 (degree s entry_point)) \<and>
   (\<forall>st nodes a.
        AttackProgress st nodes a \<in> set (emitted (simulate_zerotrust_attack env attack_id entry_point s)) \<longrightarrow>
        set nodes \<subseteq> insert entry_point (set (take 4 (neighbors_of s entry_point))) \<and>
        length nodes \<le> 1 + min 4 (degree s entry_point))"
proof -
  let ?out = "simulate_zerotrust_attack env attack_id entry_point s"
  let ?N = "insert entry_point (set (take 4 (neighbors_of s entry_point)))"
  let ?b = "1 + min 4 (degree s entry_point)"
  let ?new = "{k. device_compromised (final_state ?out) k \<and> \<not> device_compromised s k}"
  have cardN: "card ?N \<le> ?b"
  proof -
    have "card ?N \<le> Suc (card (set (take 4 (neighbors_of s entry_point))))"
      by (simp add: card_insert_if)
    also have "\<dots> \<le> Suc (length (take 4 (neighbors_of s entry_point)))"
      using card_length [of "take 4 (neighbors_of s entry_point)"] by simp
    finally show ?thesis by (simp add: degree_def min.commute)
  qed
  have main: "length (compromised_set ?out) \<le> ?b \<and> set (compromised_set ?out) \<subseteq> ?N \<and>
      ?new \<subseteq> ?N \<and>
      (\<forall>r. AttackComplete r \<in> set (emitted ?out) \<longrightarrow> compromised_count r \<le> ?b) \<and>
      (\<forall>st nodes a. AttackProgress st nodes a \<in> set (emitted ?out) \<longrightarrow>
          set nodes \<subseteq> ?N \<and> length nodes \<le> ?b)"
  proof (cases "map_of (devices s) entry_point")
    case None
    then have "?out = \<lparr>raised = Some (KeyError entry_point), final_state = s, emitted = [],
                        compromised_set = [entry_point]\<rparr>"
      by (simp add: simulate_zerotrust_attack_def)
    then show ?thesis by simp
  next
    case (Some d)
    obtain ns g' where gg: "graph_get (network_graph s) entry_point = (ns, g')"
      by (cases "graph_get (network_graph s) entry_point") auto
    then have ns: "neighbors_of s entry_point = ns" by (simp add: neighbors_of_def)
    let ?ev0 = "AttackProgress
                \<lparr>step_source = ''external'', step_target = entry_point, step_result = ''success'',
                 step_model = ''zerotrust'',
                 step_reason = ''Initial compromise via social engineering''\<rparr> [entry_point] attack_id"
    obtain err c' ds' evs' where
      loop: "zerotrust_loop env attack_id entry_point (take 4 ns) 0 [entry_point]
               (set_compromised (devices s) entry_point True) [?ev0] = (err, c', ds', evs')"
      by (metis prod_cases4)
    note lb = zerotrust_loop_bounds [OF loop]
    have out: "final_state ?out = s\<lparr>devices := ds', network_graph := g'\<rparr> \<and>
               compromised_set ?out = c' \<and>
               (emitted ?out = evs' \<or>
                (\<exists>r. emitted ?out = evs' @ [AttackComplete r] \<and> compromised_count r = length c'))"
      using Some gg loop
      by (cases err; cases "containment (length ds') (length c')")
         (simp_all add: simulate_zerotrust_attack_def Let_def)
    have c1: "length c' \<le> ?b"
    proof -
      from lb have "length c' \<le> length [entry_point] + length (take 4 ns)" by blast
      then show ?thesis by (simp add: degree_def ns min.commute)
    qed
    have c2: "set c' \<subseteq> ?N"
      using lb by (auto simp: ns)
    have c3: "?new \<subseteq> ?N"
    proof
      fix k assume "k \<in> ?new"
      then have k1: "case map_of ds' k of Some device \<Rightarrow> is_compromised device | None \<Rightarrow> False"
        and k2: "\<not> (case map_of (devices s) k of Some device \<Rightarrow> is_compromised device | None \<Rightarrow> False)"
        using out by (simp_all add: device_compromised_def)
      from lb k1 have
        "(case map_of (set_compromised (devices s) entry_point True) k of
            Some device \<Rightarrow> is_compromised device | None \<Rightarrow> False) \<or> k \<in> set (take 4 ns)"
        by blast
      with k2 flag_set_compromised [of "devices s" entry_point True k]
      show "k \<in> ?N" by (auto simp: ns)
    qed
    have c4: "\<forall>r. AttackComplete r \<in> set (emitted ?out) \<longrightarrow> compromised_count r \<le> ?b"
    proof (intro allI impI)
      fix r assume a: "AttackComplete r \<in> set (emitted ?out)"
      from lb have "AttackComplete r \<notin> set evs'" by auto
      with a out have "compromised_count r = length c'" by auto
      with c1 show "compromised_count r \<le> ?b" by simp
    qed
    have c5: "\<forall>st nodes a. AttackProgress st nodes a \<in> set (emitted ?out) \<longrightarrow>
          set nodes \<subseteq> ?N \<and> length nodes \<le> ?b"
    proof (intro allI impI)
      fix st nodes a assume a: "AttackProgress st nodes a \<in> set (emitted ?out)"
      with out have a': "AttackProgress st nodes a \<in> set evs'" by auto
      from lb have "AttackProgress st nodes a \<in> set evs' \<longrightarrow>
         AttackProgress st nodes a \<in> set [?ev0] \<or>
         (set nodes \<subseteq> set [entry_point] \<union> set (take 4 ns) \<and>
          length nodes \<le> length [entry_point] + length (take 4 ns))"
        by blast
      with a' have "nodes = [entry_point] \<or>
         (set nodes \<subseteq> set [entry_point] \<union> set (take 4 ns) \<and>
          length nodes \<le> length [entry_point] + length (take 4 ns))"
        by auto
      then show "set nodes \<subseteq> ?N \<and> length nodes \<le> ?b"
        by (auto simp: ns degree_def min.commute)
    qed
    from out c1 c2 c3 c4 c5 show ?thesis by simp
  qed
  have fin: "finite ?N" by simp
  from main have "card ?new \<le> card ?N"
    using card_mono [OF fin, of ?new] by blast
  with cardN have "card ?new \<le> ?b" by simp
  with main show ?thesis by blast
qed

theorem zerotrust_attack_contained_witness:
  "compromised_set (simulate_zerotrust_attack lucky_env ''attack-1'' ''firewall-01'' new_simulator) =
     [''firewall-01'', ''dc-server-01'', ''db-server-01'', ''ws-finance-01'', ''ws-finance-02''] \<and>
   degree new_simulator ''firewall-01'' = 8 \<and>
   length (compromised_set (simulate_zerotrust_attack lucky_env ''attack-1'' ''firewall-01'' new_simulator))
     \<le> 1 + min 4 (degree new_simulator ''firewall-01'') \<and>
   card {k. device_compromised (final_state
              (simulate_zerotrust_attack lucky_env ''attack-1'' ''firewall-01'' new_simulator)) k \<and>
            \<not> device_compromised new_simulator k}
     \<le> 1 + min 4 (degree new_simulator ''firewall-01'')"
  using zerotrust_attack_contained [of lucky_env "''attack-1''" "''firewall-01''" new_simulator]
        lucky_attack firewall_degree
  by simp

subsection \<open>The traditional attack reaches every device\<close>

text \<open>The ids of the devices are the same nine in every state the operations reach from a
  new simulator, so the two hypotheses of the theorem below hold there for every entry
  point the engine draws.\<close>

lemma set_compromised_mark: "set_compromised ds t True = mark {t} ds"
  by (simp add: set_compromised_def mark_def)

lemma mark_mark: "mark A (mark B ds) = mark (A \<union> B) ds"
  by (induction ds) (auto simp: mark_def)

lemma mark_keys: "map fst (mark T ds) = map fst ds"
  by (induction ds) (auto simp: mark_def)

lemma mark_all: "fst ` set ds \<subseteq> T \<Longrightarrow> list_all (\<lambda>(k, d). is_compromised d) (mark T ds)"
  by (induction ds) (auto simp: mark_def)

lemma map_of_key: "map_of ds k \<noteq> None \<longleftrightarrow> k \<in> fst ` set ds"
  by (simp add: map_of_eq_None_iff)

lemma distinct_set_add: "distinct c \<Longrightarrow> distinct (set_add c t)"
  by (simp add: set_add_def)

lemma traditional_loop_complete:
  assumes "entry \<in> set c" and "set targets \<subseteq> fst ` set ds"
      and "traditional_loop env aid entry targets k c ds evs = (err, c', ds', evs')"
  shows "err = None \<and> set c' = set c \<union> (set targets - {entry}) \<and>
         (distinct c \<longrightarrow> distinct c') \<and>
         ds' = mark (set targets - {entry}) ds \<and>
         (\<exists>more. evs' = evs @ more \<and> (\<forall>r. AttackComplete r \<notin> set more))"
  using assms
proof (induction targets arbitrary: k c ds evs)
  case Nil
  then show ?case by (simp add: mark_def)
next
  case (Cons target rest)
  show ?case
  proof (cases "target = entry")
    case True
    with Cons.prems have loop: "traditional_loop env aid entry rest k c ds evs = (err, c', ds', evs')"
      by simp
    from Cons.prems have "set rest \<subseteq> fst ` set ds" by simp
    from Cons.IH [OF Cons.prems(1) this loop] True show ?thesis by auto
  next
    case False
    from Cons.prems(2) have "target \<in> fst ` set ds" by simp
    then have "map_of ds target \<noteq> None" by (simp add: map_of_eq_None_iff)
    then obtain d where d: "map_of ds target = Some d" by auto
    have "entry \<in> set (removeAll target (set_add c target))"
      using Cons.prems(1) False by (auto simp: set_add_def)
    then have "removeAll target (set_add c target) \<noteq> []"
      by (metis empty_iff empty_set)
    then obtain source where
      src: "choice (env_choice env k) (removeAll target (set_add c target)) = Inr source"
      by (simp add: choice_def)
    let ?ev = "AttackProgress
                \<lparr>step_source = source, step_target = target, step_result = ''success'',
                 step_model = ''traditional'',
                 step_reason = ''Lateral movement via shared credentials/network access''\<rparr>
                (set_add c target) aid"
    from Cons.prems(3) False d src have
      loop: "traditional_loop env aid entry rest (Suc k) (set_add c target)
               (set_compromised ds target True) (evs @ [?ev]) = (err, c', ds', evs')"
      by (simp add: Let_def)
    have e: "entry \<in> set (set_add c target)"
      using Cons.prems(1) by (simp add: set_add_def)
    have t: "set rest \<subseteq> fst ` set (set_compromised ds target True)"
    proof -
      have "fst ` set (set_compromised ds target True) = set (map fst (set_compromised ds target True))"
        by simp
      also have "\<dots> = set (map fst ds)" by (simp add: set_compromised_mark mark_keys)
      finally show ?thesis using Cons.prems(2) by simp
    qed
    note ih = Cons.IH [OF e t loop]
    have s: "set c' = set c \<union> (set (target # rest) - {entry})"
      using ih False by (auto simp: set_add_def)
    have m: "ds' = mark (set (target # rest) - {entry}) ds"
    proof -
      from ih have "ds' = mark (set rest - {entry}) (mark {target} ds)"
        by (simp add: set_compromised_mark)
      also have "\<dots> = mark ((set rest - {entry}) \<union> {target}) ds" by (rule mark_mark)
      also have "(set rest - {entry}) \<union> {target} = set (target # rest) - {entry}"
        using False by auto
      finally show ?thesis .
    qed
    from ih obtain more where "evs' = (evs @ [?ev]) @ more" "\<forall>r. AttackComplete r \<notin> set more"
      by blast
    then have ev: "\<exists>more. evs' = evs @ more \<and> (\<forall>r. AttackComplete r \<notin> set more)"
      by (intro exI [of _ "?ev # more"]) simp
    from ih s m ev show ?thesis by (simp add: distinct_set_add)
  qed
qed

lemma format_zero: "format_1f 0 = ''0.0''"
  by (simp add: format_1f_def round_half_even_def string_of_nat.simps [of 0])

lemma containment_all: "0 < n \<Longrightarrow> containment n n = Inr ''0.0%''"
  by (simp add: containment_def format_zero)


lemma static_keys:
  "map (\<lambda>(k, device). (k, device_static device)) ds' =
   map (\<lambda>(k, device). (k, device_static device)) ds \<Longrightarrow> map fst ds' = map fst ds"
proof -
  assume a: "map (\<lambda>(k, device). (k, device_static device)) ds' =
             map (\<lambda>(k, device). (k, device_static device)) ds"
  have "map fst (map (\<lambda>(k, device). (k, device_static device)) xs) = map fst xs" for xs
    by (induction xs) auto
  with a show ?thesis by metis
qed

lemma execute_keys: "map fst (devices (execute c s)) = map fst (devices s)"
proof (cases c)
  case (EvaluateAccess lh request)
  then show ?thesis by simp
next
  case (StartActivity env)
  from activity_loop_state [of env "[0..<10]" s "[]"] StartActivity show ?thesis
    by (auto simp: simulate_normal_activity_def)
next
  case (StartAttack env model)
  from lateral_attack_state [of env model s] StartAttack show ?thesis
    by (auto dest: static_keys)
next
  case (TraditionalAttack env aid entry)
  from traditional_attack_state [of env aid entry s] TraditionalAttack show ?thesis
    by (auto dest: static_keys)
next
  case (ZeroTrustAttack env aid entry)
  from zerotrust_attack_state [of env aid entry s] ZeroTrustAttack show ?thesis
    by (auto dest: static_keys)
next
  case Reset
  have "map fst (map (\<lambda>(k, device). (k, device\<lparr>is_compromised := False\<rparr>)) xs) = map fst xs" for xs
    by (induction xs) auto
  with Reset show ?thesis by (simp add: reset_network_def)
qed

lemma fold_execute_keys: "map fst (devices (fold execute cmds s)) = map fst (devices s)"
  by (induction cmds arbitrary: s) (simp_all add: execute_keys)

lemma new_keys:
  "map fst (devices new_simulator) =
     [''firewall-01'', ''dc-server-01'', ''db-server-01'', ''ws-finance-01'', ''ws-finance-02'',
      ''ws-hr-01'', ''ws-it-01'', ''mobile-ceo'', ''printer-01'']"
  by code_simp

lemma run_keys:
  "map fst (devices (run cmds)) =
     [''firewall-01'', ''dc-server-01'', ''db-server-01'', ''ws-finance-01'', ''ws-finance-02'',
      ''ws-hr-01'', ''ws-it-01'', ''mobile-ceo'', ''printer-01'']"
  by (simp add: run_def fold_execute_keys new_keys)

lemma run_keys_distinct: "distinct (map fst (devices (run cmds)))"
  by (simp add: run_keys)

lemma printer_is_device: "map_of (devices new_simulator) ''printer-01'' \<noteq> None"
  by code_simp

lemma new_device_count: "length (devices new_simulator) = 9"
  using arg_cong [OF new_keys, of length] by simp

text \<open>
  Claim C2. For every entry point that is a device of the topology (the dictionary of the
  devices having no key twice), a run of the traditional attack ends without an exception
  and with every device marked compromised; its last event is the only
  \<^verbatim>\<open>attack_complete\<close> event and reports a compromised count equal to the number of
  devices and the containment effectiveness \<^verbatim>\<open>0.0%\<close>.
\<close>

theorem traditional_attack_compromises_all:
  assumes "distinct (map fst (devices s))" and "map_of (devices s) entry_point \<noteq> None"
  shows "raised (simulate_traditional_attack env attack_id entry_point s) = None \<and>
         list_all (\<lambda>(k, device). is_compromised device)
           (devices (final_state (simulate_traditional_attack env attack_id entry_point s))) \<and>
         map fst (devices (final_state (simulate_traditional_attack env attack_id entry_point s))) =
           map fst (devices s) \<and>
         set (compromised_set (simulate_traditional_attack env attack_id entry_point s)) =
           set (map fst (devices s)) \<and>
         (\<exists>evs. emitted (simulate_traditional_attack env attack_id entry_point s) =
                  evs @ [AttackComplete
                     \<lparr>res_model = ''traditional'', compromised_count = length (devices s),
                      total_nodes = length (devices s), containment_effectiveness = ''0.0%'',
                      res_attack_id = attack_id, res_entry_point = entry_point,
                      duration = env_time env 0\<rparr>] \<and>
                (\<forall>r. AttackComplete r \<notin> set evs))"
proof -
  let ?keys = "map fst (devices s)"
  let ?ev0 = "AttackProgress
                \<lparr>step_source = ''external'', step_target = entry_point, step_result = ''success'',
                 step_model = ''traditional'',
                 step_reason = ''Initial compromise via phishing/malware''\<rparr> [entry_point] attack_id"
  from assms(2) obtain d where d: "map_of (devices s) entry_point = Some d" by auto
  then have ek: "entry_point \<in> set ?keys"
    by (metis assms(2) map_of_eq_None_iff set_map)
  obtain err c' ds' evs' where
    loop: "traditional_loop env attack_id entry_point ?keys 0 [entry_point]
             (set_compromised (devices s) entry_point True) [?ev0] = (err, c', ds', evs')"
    by (metis prod_cases4)
  have pre: "set ?keys \<subseteq> fst ` set (set_compromised (devices s) entry_point True)"
  proof -
    have "fst ` set (set_compromised (devices s) entry_point True) =
          set (map fst (set_compromised (devices s) entry_point True))" by simp
    also have "\<dots> = set ?keys" by (simp add: set_compromised_mark mark_keys)
    finally show ?thesis by simp
  qed
  have e0: "entry_point \<in> set [entry_point]" by simp
  note lc = traditional_loop_complete [OF e0 pre loop]
  from lc have err: "err = None" by simp
  from lc ek have sc: "set c' = set ?keys" by auto
  from lc have dc: "distinct c'" by simp
  have len: "length c' = length (devices s)"
  proof -
    from dc have "length c' = card (set c')" by (simp add: distinct_card)
    also have "\<dots> = card (set ?keys)" by (simp add: sc)
    also have "\<dots> = length ?keys" using assms(1) by (rule distinct_card)
    finally show ?thesis by simp
  qed
  have ds: "ds' = mark (set ?keys) (devices s)"
  proof -
    from lc have "ds' = mark (set ?keys - {entry_point}) (mark {entry_point} (devices s))"
      by (simp add: set_compromised_mark)
    also have "\<dots> = mark ((set ?keys - {entry_point}) \<union> {entry_point}) (devices s)"
      by (rule mark_mark)
    also have "(set ?keys - {entry_point}) \<union> {entry_point} = set ?keys" using ek by auto
    finally show ?thesis .
  qed
  have pos: "0 < length (devices s)" using ek by (cases "devices s") auto
  from lc obtain more where more: "evs' = [?ev0] @ more" "\<forall>r. AttackComplete r \<notin> set more"
    by blast
  have out: "simulate_traditional_attack env attack_id entry_point s =
      \<lparr>raised = None, final_state = s\<lparr>devices := ds'\<rparr>,
       emitted = evs' @ [AttackComplete
                     \<lparr>res_model = ''traditional'', compromised_count = length (devices s),
                      total_nodes = length (devices s), containment_effectiveness = ''0.0%'',
                      res_attack_id = attack_id, res_entry_point = entry_point,
                      duration = env_time env 0\<rparr>],
       compromised_set = c'\<rparr>"
    using d loop err len containment_all [OF pos]
    by (simp add: simulate_traditional_attack_def Let_def)
  have all: "list_all (\<lambda>(k, device). is_compromised device) ds'"
    unfolding ds by (rule mark_all) simp
  have keys: "map fst ds' = ?keys" by (simp add: ds mark_keys)
  have noc: "\<forall>r. AttackComplete r \<notin> set evs'" using more by auto
  from out all keys sc noc show ?thesis by auto
qed

theorem traditional_attack_compromises_all_witness:
  "raised (simulate_traditional_attack example_env ''attack-1'' ''printer-01'' new_simulator) = None \<and>
   list_all (\<lambda>(k, device). is_compromised device)
     (devices (final_state (simulate_traditional_attack example_env ''attack-1'' ''printer-01'' new_simulator))) \<and>
   (\<exists>evs. emitted (simulate_traditional_attack example_env ''attack-1'' ''printer-01'' new_simulator) =
            evs @ [AttackComplete
               \<lparr>res_model = ''traditional'', compromised_count = 9, total_nodes = 9,
                containment_effectiveness = ''0.0%'', res_attack_id = ''attack-1'',
                res_entry_point = ''printer-01'', duration = env_time example_env 0\<rparr>])"
proof -
  have d: "distinct (map fst (devices new_simulator))" by (simp add: new_keys)
  from traditional_attack_compromises_all [OF d printer_is_device, of example_env "''attack-1''"]
  show ?thesis by (auto simp: new_device_count)
qed

section \<open>Properties of the topology report\<close>

text \<open>
  The link list is the list of the directed edges with source below target. For a graph
  whose edge list has no edge twice and is symmetric and irreflexive, in whatever order
  its keys and neighbours are iterated, this list has the properties of the claim below;
  the graph of a new simulator is such a graph and no operation changes its edges.
\<close>

lemma links_filter:
  "links (get_network_topology s) = filter (\<lambda>(a, b). a < b) (edges s)"
proof -
  have "concat (map (\<lambda>(source, targets). map (\<lambda>target. (source, target))
                       (filter (\<lambda>target. source < target) targets)) g) =
        filter (\<lambda>(a, b). a < b) (concat (map (\<lambda>(a, ns). map (\<lambda>b. (a, b)) ns) g))" for g :: "(string \<times> string list) list"
    by (induction g) (auto simp: filter_map comp_def)
  then show ?thesis by (simp add: get_network_topology_def edges_def)
qed

lemma count_list_distinct: "distinct xs \<Longrightarrow> x \<in> set xs \<Longrightarrow> count_list xs x = 1"
  by (induction xs) (auto simp: count_list_0_iff)

lemma links_of_wellformed_graph:
  assumes d: "distinct (edges s)"
      and sym: "\<forall>(a, b) \<in> set (edges s). (b, a) \<in> set (edges s)"
      and irr: "\<forall>(a, b) \<in> set (edges s). a \<noteq> b"
  shows "(\<forall>(a, b) \<in> set (links (get_network_topology s)). a < b) \<and>
         distinct (links (get_network_topology s)) \<and>
         (\<forall>(a, b) \<in> set (links (get_network_topology s)).
             (b, a) \<notin> set (links (get_network_topology s))) \<and>
         set (links (get_network_topology s)) \<subseteq> set (edges s) \<and>
         (\<forall>(a, b) \<in> set (edges s).
             count_list (links (get_network_topology s)) (min a b, max a b) = 1 \<and>
             count_list (links (get_network_topology s)) (max a b, min a b) = 0)"
proof -
  let ?L = "links (get_network_topology s)"
  have L: "?L = filter (\<lambda>(a, b). a < b) (edges s)" by (rule links_filter)
  have o: "\<forall>(a, b) \<in> set ?L. a < b" by (auto simp: L)
  have dl: "distinct ?L" using d by (simp add: L)
  have ns: "\<forall>(a, b) \<in> set ?L. (b, a) \<notin> set ?L" by (auto simp: L)
  have sub: "set ?L \<subseteq> set (edges s)" by (auto simp: L)
  have cnt: "\<forall>(a, b) \<in> set (edges s).
      count_list ?L (min a b, max a b) = 1 \<and> count_list ?L (max a b, min a b) = 0"
  proof (clarify)
    fix a b assume ab: "(a, b) \<in> set (edges s)"
    with sym have ba: "(b, a) \<in> set (edges s)" by auto
    from ab irr have ne: "a \<noteq> b" by auto
    have "(min a b, max a b) \<in> set ?L"
      using ab ba ne by (auto simp: L min_def max_def)
    with dl have one: "count_list ?L (min a b, max a b) = 1" by (rule count_list_distinct)
    have "(max a b, min a b) \<notin> set ?L"
      using ne by (auto simp: L min_def max_def)
    then have "count_list ?L (max a b, min a b) = 0" by (simp add: count_list_0_iff)
    with one show "count_list ?L (min a b, max a b) = 1 \<and> count_list ?L (max a b, min a b) = 0"
      by simp
  qed
  from o dl ns sub cnt show ?thesis by blast
qed

lemma execute_edges: "edges (execute c s) = edges s"
proof (cases c)
  case (EvaluateAccess lh request)
  then show ?thesis by simp
next
  case (StartActivity env)
  from activity_loop_state [of env "[0..<10]" s "[]"] StartActivity show ?thesis
    by (auto simp: simulate_normal_activity_def edges_def)
next
  case (StartAttack env model)
  from lateral_attack_state [of env model s] StartAttack show ?thesis
    by (auto simp: edges_def dest: edges_graph_get)
next
  case (TraditionalAttack env aid entry)
  from traditional_attack_state [of env aid entry s] TraditionalAttack show ?thesis
    by (auto simp: edges_def)
next
  case (ZeroTrustAttack env aid entry)
  from zerotrust_attack_state [of env aid entry s] ZeroTrustAttack show ?thesis
    by (auto simp: edges_def dest: edges_graph_get)
next
  case Reset
  then show ?thesis by (simp add: reset_network_def edges_def)
qed

lemma fold_execute_edges: "edges (fold execute cmds s) = edges s"
  by (induction cmds arbitrary: s) (simp_all add: execute_edges)

lemma new_edges:
  "edges new_simulator =
     [(''firewall-01'', ''dc-server-01''),
      (''firewall-01'', ''db-server-01''),
      (''firewall-01'', ''ws-finance-01''),
      (''firewall-01'', ''ws-finance-02''),
      (''firewall-01'', ''ws-hr-01''),
      (''firewall-01'', ''ws-it-01''),
      (''firewall-01'', ''mobile-ceo''),
      (''firewall-01'', ''printer-01''),
      (''dc-server-01'', ''firewall-01''),
      (''dc-server-01'', ''db-server-01''),
      (''db-server-01'', ''firewall-01''),
      (''db-server-01'', ''dc-server-01''),
      (''ws-finance-01'', ''firewall-01''),
      (''ws-finance-01'', ''ws-finance-02''),
      (''ws-finance-02'', ''firewall-01''),
      (''ws-finance-02'', ''ws-finance-01''),
      (''ws-hr-01'', ''firewall-01''),
      (''ws-it-01'', ''firewall-01''),
      (''mobile-ceo'', ''firewall-01''),
      (''printer-01'', ''firewall-01'')]"
  by code_simp

lemma run_edges:
  "edges (run cmds) =
     [(''firewall-01'', ''dc-server-01''),
      (''firewall-01'', ''db-server-01''),
      (''firewall-01'', ''ws-finance-01''),
      (''firewall-01'', ''ws-finance-02''),
      (''firewall-01'', ''ws-hr-01''),
      (''firewall-01'', ''ws-it-01''),
      (''firewall-01'', ''mobile-ceo''),
      (''firewall-01'', ''printer-01''),
      (''dc-server-01'', ''firewall-01''),
      (''dc-server-01'', ''db-server-01''),
      (''db-server-01'', ''firewall-01''),
      (''db-server-01'', ''dc-server-01''),
      (''ws-finance-01'', ''firewall-01''),
      (''ws-finance-01'', ''ws-finance-02''),
      (''ws-finance-02'', ''firewall-01''),
      (''ws-finance-02'', ''ws-finance-01''),
      (''ws-hr-01'', ''firewall-01''),
      (''ws-it-01'', ''firewall-01''),
      (''mobile-ceo'', ''firewall-01''),
      (''printer-01'', ''firewall-01'')]"
  by (simp add: run_def fold_execute_edges new_edges)

lemma run_edges_distinct: "distinct (edges (run cmds))"
  unfolding run_edges by simp

lemma run_edges_symmetric: "\<forall>(a, b) \<in> set (edges (run cmds)). (b, a) \<in> set (edges (run cmds))"
  unfolding run_edges by simp

lemma run_edges_irreflexive: "\<forall>(a, b) \<in> set (edges (run cmds)). a \<noteq> b"
  unfolding run_edges by simp

lemma run_links:
  "links (get_network_topology (run cmds)) =
     [(''firewall-01'', ''ws-finance-01''),
      (''firewall-01'', ''ws-finance-02''),
      (''firewall-01'', ''ws-hr-01''),
      (''firewall-01'', ''ws-it-01''),
      (''firewall-01'', ''mobile-ceo''),
      (''firewall-01'', ''printer-01''),
      (''dc-server-01'', ''firewall-01''),
      (''db-server-01'', ''firewall-01''),
      (''db-server-01'', ''dc-server-01''),
      (''ws-finance-01'', ''ws-finance-02'')]"
  by (simp add: links_filter run_edges)

text \<open>
  Claim C9. In every state the operations reach from a new simulator, every link of the
  topology report has its source strictly below its target, so no link is a self-loop;
  no link occurs twice, in either orientation; every link is an edge of the adjacency
  relation; and every edge of the adjacency relation occurs exactly once, oriented from
  its smaller to its larger end, and not in the other orientation.
\<close>

theorem topology_links_deduplicated:
  "(\<forall>(a, b) \<in> set (links (get_network_topology (run cmds))). a < b) \<and>
   distinct (links (get_network_topology (run cmds))) \<and>
   (\<forall>(a, b) \<in> set (links (get_network_topology (run cmds))).
       (b, a) \<notin> set (links (get_network_topology (run cmds)))) \<and>
   set (links (get_network_topology (run cmds))) \<subseteq> set (edges (run cmds)) \<and>
   (\<forall>(a, b) \<in> set (edges (run cmds)).
       count_list (links (get_network_topology (run cmds))) (min a b, max a b) = 1 \<and>
       count_list (links (get_network_topology (run cmds))) (max a b, min a b) = 0)"
  by (rule links_of_wellformed_graph
        [OF run_edges_distinct run_edges_symmetric run_edges_irreflexive])

theorem topology_links_deduplicated_witness:
  "links (get_network_topology compromised_printer) =
     [(''firewall-01'', ''ws-finance-01''),
      (''firewall-01'', ''ws-finance-02''),
      (''firewall-01'', ''ws-hr-01''),
      (''firewall-01'', ''ws-it-01''),
      (''firewall-01'', ''mobile-ceo''),
      (''firewall-01'', ''printer-01''),
      (''dc-server-01'', ''firewall-01''),
      (''db-server-01'', ''firewall-01''),
      (''db-server-01'', ''dc-server-01''),
      (''ws-finance-01'', ''ws-finance-02'')] \<and>
   distinct (links (get_network_topology compromised_printer)) \<and>
   count_list (links (get_network_topology compromised_printer)) (''dc-server-01'', ''firewall-01'') = 1 \<and>
   count_list (links (get_network_topology compromised_printer)) (''firewall-01'', ''dc-server-01'') = 0"
proof -
  let ?c = "[ZeroTrustAttack example_env ''attack-1'' ''printer-01'']"
  note t = topology_links_deduplicated [of ?c]
  have m: "(''firewall-01'', ''dc-server-01'') \<in> set (edges (run ?c))"
    by (simp add: run_edges)
  from t have "\<forall>(a, b) \<in> set (edges (run ?c)).
       count_list (links (get_network_topology (run ?c))) (min a b, max a b) = 1 \<and>
       count_list (links (get_network_topology (run ?c))) (max a b, min a b) = 0"
    by blast
  from bspec [OF this m] have
    "count_list (links (get_network_topology (run ?c)))
       (min ''firewall-01'' ''dc-server-01'', max ''firewall-01'' ''dc-server-01'') = 1 \<and>
     count_list (links (get_network_topology (run ?c)))
       (max ''firewall-01'' ''dc-server-01'', min ''firewall-01'' ''dc-server-01'') = 0"
    by simp
  moreover have "min ''firewall-01'' ''dc-server-01'' = ''dc-server-01''"
    and "max ''firewall-01'' ''dc-server-01'' = ''firewall-01''"
    by (simp_all add: min_def max_def)
  moreover from t have "distinct (links (get_network_topology (run ?c)))" by blast
  ultimately show ?thesis
    by (simp add: compromised_printer_def run_links)
qed

section \<open>The worked example, in floating-point arithmetic\<close>

subsection \<open>Rounding errors\<close>

text \<open>The exact arithmetic and the arithmetic of binary64 are floating-point arithmetics in
  the sense assumed here.\<close>

lemma round_half_even_error: "\<bar>of_int (round_half_even r) - r\<bar> \<le> 1 / 2"
proof -
  define n where "n = \<lfloor>r\<rfloor>"
  have f: "of_int n \<le> r" "r < of_int n + 1" unfolding n_def by linarith+
  have "round_half_even r = n \<and> r - of_int n \<le> 1 / 2 \<or>
        round_half_even r = n + 1 \<and> 1 / 2 \<le> r - of_int n"
    by (auto simp: round_half_even_def Let_def n_def [symmetric])
  with f show ?thesis by auto
qed

lemma exact_float_arith: "float_arith exact_arith"
  by (simp add: float_arith_def exact_arith_def)

lemma binary64_round_error: "\<bar>binary64_round x - x\<bar> \<le> \<bar>x\<bar> / 2 ^ 53"
proof (cases "x = 0")
  case True
  then show ?thesis by (simp add: binary64_round_def)
next
  case False
  define a where "a = \<bar>x\<bar>"
  define e where "e = \<lfloor>log 2 a\<rfloor>"
  define q :: real where "q = 2 powr (of_int (e - 52))"
  have a: "0 < a" using False by (simp add: a_def)
  have q: "0 < q" by (simp add: q_def)
  have "real_of_int e \<le> log 2 a" by (simp add: e_def)
  then have "(2::real) powr (of_int e) \<le> 2 powr (log 2 a)" by simp
  then have pe: "(2::real) powr (of_int e) \<le> a" using a by simp
  have qe: "q = 2 powr (real_of_int e) / 2 ^ 52"
    by (simp add: q_def powr_diff powr_realpow [symmetric])
  have r: "binary64_round x = sgn x * (of_int (round_half_even (a / q)) * q)"
    using False by (simp add: binary64_round_def Let_def a_def e_def q_def)
  have x: "x = sgn x * a" by (simp add: a_def sgn_if)
  have "binary64_round x - x = sgn x * (of_int (round_half_even (a / q)) * q - a)"
    using r x by (metis right_diff_distrib)
  then have "\<bar>binary64_round x - x\<bar> = \<bar>of_int (round_half_even (a / q)) * q - a\<bar>"
    using False by (simp add: abs_mult sgn_if)
  also have "of_int (round_half_even (a / q)) * q - a = (of_int (round_half_even (a / q)) - a / q) * q"
    using q by (simp add: left_diff_distrib)
  also have "\<bar>\<dots>\<bar> = \<bar>of_int (round_half_even (a / q)) - a / q\<bar> * q"
    using q by (simp add: abs_mult)
  also have "\<dots> \<le> 1 / 2 * q"
    using round_half_even_error [of "a / q"] q by (intro mult_right_mono) simp_all
  also have "\<dots> = 2 powr (real_of_int e) / 2 ^ 53" by (simp add: qe)
  also have "\<dots> \<le> a / 2 ^ 53" using pe by (simp add: divide_right_mono)
  finally show ?thesis by (simp add: a_def)
qed


lemma round_step:
  fixes rnd :: "real \<Rightarrow> real"
  assumes "\<bar>rnd y - y\<bar> \<le> \<bar>y\<bar> / 2 ^ 53" and "0 \<le> y"
  shows "y * (1 - 1 / 9007199254740992) \<le> rnd y \<and> rnd y \<le> y * (1 + 1 / 9007199254740992)"
proof -
  from assms have "\<bar>rnd y - y\<bar> \<le> y / 9007199254740992" by simp
  then show ?thesis by argo
qed

lemma naive_sum_error:
  fixes rnd :: "real \<Rightarrow> real"
  assumes r: "\<And>y. \<bar>rnd y - y\<bar> \<le> \<bar>y\<bar> / 2 ^ 53"
      and "0 \<le> a" "0 \<le> b" "0 \<le> c" "0 \<le> d"
  shows "\<bar>naive_sum rnd [a, b, c, d] - (a + b + c + d)\<bar> \<le> (a + b + c + d) / 2 ^ 50"
proof -
  define s1 where "s1 = rnd a"
  define s2 where "s2 = rnd (s1 + b)"
  define s3 where "s3 = rnd (s2 + c)"
  define s4 where "s4 = rnd (s3 + d)"
  have n: "naive_sum rnd [a, b, c, d] = s4"
    by (simp add: naive_sum_def s1_def s2_def s3_def s4_def)
  have b1: "a * (1 - 1 / 9007199254740992) \<le> s1 \<and> s1 \<le> a * (1 + 1 / 9007199254740992)"
    unfolding s1_def using r assms(2) by (rule round_step)
  have p1: "0 \<le> s1 + b" using b1 assms(2,3) by argo
  have b2: "(s1 + b) * (1 - 1 / 9007199254740992) \<le> s2 \<and>
            s2 \<le> (s1 + b) * (1 + 1 / 9007199254740992)"
    unfolding s2_def using r p1 by (rule round_step)
  have p2: "0 \<le> s2 + c" using b2 p1 assms(4) by argo
  have b3: "(s2 + c) * (1 - 1 / 9007199254740992) \<le> s3 \<and>
            s3 \<le> (s2 + c) * (1 + 1 / 9007199254740992)"
    unfolding s3_def using r p2 by (rule round_step)
  have p3: "0 \<le> s3 + d" using b3 p2 assms(5) by argo
  have b4: "(s3 + d) * (1 - 1 / 9007199254740992) \<le> s4 \<and>
            s4 \<le> (s3 + d) * (1 + 1 / 9007199254740992)"
    unfolding s4_def using r p3 by (rule round_step)
  have c2: "(a + b) * (1 - 3 / 9007199254740992) \<le> s2 \<and>
            s2 \<le> (a + b) * (1 + 3 / 9007199254740992)"
    using b1 b2 assms(2,3) by argo
  have c3: "(a + b + c) * (1 - 5 / 9007199254740992) \<le> s3 \<and>
            s3 \<le> (a + b + c) * (1 + 5 / 9007199254740992)"
    using c2 b3 assms(2-4) by argo
  have c4: "(a + b + c + d) * (1 - 7 / 9007199254740992) \<le> s4 \<and>
            s4 \<le> (a + b + c + d) * (1 + 7 / 9007199254740992)"
    using c3 b4 assms(2-5) by argo
  have "\<bar>s4 - (a + b + c + d)\<bar> \<le> (a + b + c + d) / 1125899906842624"
    using c4 assms(2-5) by argo
  with n show ?thesis by simp
qed

lemma binary64_float_arith: "float_arith binary64_arith"
  unfolding float_arith_def
proof (intro conjI allI impI)
  fix x :: real
  show "\<bar>fa_round binary64_arith x - x\<bar> \<le> \<bar>x\<bar> / 2 ^ 53"
    by (simp only: binary64_arith_def FloatArith.simps binary64_round_error)
next
  fix a b c d :: real
  assume "0 \<le> a \<and> 0 \<le> b \<and> 0 \<le> c \<and> 0 \<le> d"
  then have "\<bar>naive_sum binary64_round [a, b, c, d] - (a + b + c + d)\<bar> \<le> (a + b + c + d) / 2 ^ 50"
    by (intro naive_sum_error binary64_round_error) simp_all
  then show "\<bar>fa_sum binary64_arith [a, b, c, d] - (a + b + c + d)\<bar> \<le> (a + b + c + d) / 2 ^ 50"
    by (simp only: binary64_arith_def FloatArith.simps)
qed

lemma float_round_near:
  assumes fa: "float_arith ar" and x: "\<bar>x - c\<bar> \<le> k"
      and c: "1 / 500 \<le> c" "c \<le> 1" and k: "0 \<le> k" "k \<le> 1 / 1000"
  shows "\<bar>fa_round ar x - c\<bar> \<le> k + (c + k) * (12 / 100000000000000000)"
proof -
  from x c k have r: "1 / 1000 \<le> x" "x \<le> 1000" by argo+
  then have "1 / 1000 \<le> \<bar>x\<bar> \<and> \<bar>x\<bar> \<le> 1000" by simp
  with fa have "\<bar>fa_round ar x - x\<bar> \<le> \<bar>x\<bar> / 2 ^ 53" by (simp only: float_arith_def)
  with r have "\<bar>fa_round ar x - x\<bar> \<le> x / 9007199254740992" by simp
  with x c k show ?thesis by argo
qed

lemma product_near:
  fixes a b :: real
  assumes a: "\<bar>a - ca\<bar> \<le> ka" and b: "\<bar>b - cb\<bar> \<le> kb" and "0 \<le> ca" "0 \<le> cb"
  shows "\<bar>a * b - ca * cb\<bar> \<le> ka * cb + ca * kb + ka * kb"
proof -
  have ka: "0 \<le> ka" and kb: "0 \<le> kb" using a b by linarith+
  have e: "a * b - ca * cb = (a - ca) * cb + ca * (b - cb) + (a - ca) * (b - cb)"
    by (simp add: algebra_simps)
  have 1: "\<bar>(a - ca) * cb\<bar> \<le> ka * cb"
    using a assms(4) by (simp add: abs_mult mult_right_mono)
  have 2: "\<bar>ca * (b - cb)\<bar> \<le> ca * kb"
    using b assms(3) by (simp add: abs_mult mult_left_mono)
  have 3: "\<bar>(a - ca) * (b - cb)\<bar> \<le> ka * kb"
    using a b by (simp add: abs_mult mult_mono)
  from 1 2 3 show ?thesis unfolding e by linarith
qed

lemma evaluate_float_known:
  assumes "map_of (users s) (req_user_id request) = Some user"
      and "map_of (devices s) (req_device_id request) = Some device"
      and "get_time_risk lh (timestamp request) = Inr literal"
  shows "evaluate_zerotrust_access_float ar lh s request =
     Inr \<lparr>decision = fst (additional_checks_float ar user device
                 (fa_round ar (trust_score device))
                 (fa_round ar (get_resource_sensitivity (resource request)))
                 (baseline_decision_float ar
                    (fa_sum ar
                       [fa_round ar (fa_round ar (risk_score user) * fa_round ar 0.3),
                        fa_round ar (fa_round ar (1 - fa_round ar (trust_score device)) * fa_round ar 0.3),
                        fa_round ar (fa_round ar (get_resource_sensitivity (resource request)) * fa_round ar 0.25),
                        fa_round ar (fa_round ar (1 - fa_round ar literal) * fa_round ar 0.15)]))),
          reason = snd (additional_checks_float ar user device
                 (fa_round ar (trust_score device))
                 (fa_round ar (get_resource_sensitivity (resource request)))
                 (baseline_decision_float ar
                    (fa_sum ar
                       [fa_round ar (fa_round ar (risk_score user) * fa_round ar 0.3),
                        fa_round ar (fa_round ar (1 - fa_round ar (trust_score device)) * fa_round ar 0.3),
                        fa_round ar (fa_round ar (get_resource_sensitivity (resource request)) * fa_round ar 0.25),
                        fa_round ar (fa_round ar (1 - fa_round ar literal) * fa_round ar 0.15)]))),
          result_trust_score = fa_round ar (1 -
                    fa_sum ar
                       [fa_round ar (fa_round ar (risk_score user) * fa_round ar 0.3),
                        fa_round ar (fa_round ar (1 - fa_round ar (trust_score device)) * fa_round ar 0.3),
                        fa_round ar (fa_round ar (get_resource_sensitivity (resource request)) * fa_round ar 0.25),
                        fa_round ar (fa_round ar (1 - fa_round ar literal) * fa_round ar 0.15)]),
          risk_factors = Some
                    \<lparr>rf_user_risk = fa_round ar (fa_round ar (risk_score user) * fa_round ar 0.3),
                     rf_device_risk = fa_round ar (fa_round ar (1 - fa_round ar (trust_score device)) * fa_round ar 0.3),
                     rf_resource_sensitivity = fa_round ar (fa_round ar (get_resource_sensitivity (resource request)) * fa_round ar 0.25),
                     rf_time_risk = fa_round ar (fa_round ar (1 - fa_round ar literal) * fa_round ar 0.15)\<rparr>\<rparr>"
  using assms by (simp add: evaluate_zerotrust_access_float_def Let_def)

lemma float_literal:
  assumes "float_arith ar" and "1 / 500 \<le> c" and "c \<le> 1"
  shows "\<bar>fa_round ar c - c\<bar> \<le> c * (12 / 100000000000000000)"
  using float_round_near [OF assms(1), of c c 0] assms(2,3) by simp

lemma evaluate_float_exact:
  "evaluate_zerotrust_access_float exact_arith lh s request = evaluate_zerotrust_access lh s request"
  by (auto simp: evaluate_zerotrust_access_float_def evaluate_zerotrust_access_def exact_arith_def
        baseline_decision_float_def baseline_decision_def additional_checks_float_def
        additional_checks_def sum_values_def Let_def
      split: option.splits sum.splits)

subsection \<open>The example\<close>

text \<open>
  Claim C5. A user with risk score 0.3 of the department finance (Alice) asks for
  \<^verbatim>\<open>financial_data\<close> from a device that is not compromised, at a timestamp whose local
  hour is a business hour. With the device trust 0.8 the decision is ALLOW for the low
  risk profile: the check of the device trust does not fire, since the float 0.8 is not
  below itself. The risk factors are 0.09, 0.06, 0.2375 and 0.015, the overall risk is
  0.4025 and the trust score is 1 - 0.4025, each up to the rounding of the arithmetic,
  which is at most \<open>1 / 10 ^ 15\<close>. With the device trust 0.5 the decision is DENY for
  insufficient device trust. This holds in every floating-point arithmetic with the error
  bounds of binary64, whichever way \<^verbatim>\<open>sum\<close> adds.
\<close>

theorem finance_example_float:
  assumes fa: "float_arith ar"
      and u: "map_of (users s) (req_user_id request) = Some user"
      and ur: "risk_score user = 0.3" and ud: "department user = ''finance''"
      and d: "map_of (devices s) (req_device_id request) = Some device"
      and dc: "\<not> is_compromised device"
      and rq: "resource request = ''financial_data''"
      and h: "local_hour (timestamp request) = Some hour" "9 \<le> hour" "hour \<le> 17"
  shows "(trust_score device = 0.8 \<longrightarrow>
            (\<exists>r f. evaluate_zerotrust_access_float ar local_hour s request = Inr r \<and>
                   risk_factors r = Some f \<and>
                   decision r = ALLOW \<and> reason r = ''Low risk profile - access granted'' \<and>
                   \<bar>rf_user_risk f - 0.09\<bar> \<le> 1 / 10 ^ 15 \<and>
                   \<bar>rf_device_risk f - 0.06\<bar> \<le> 1 / 10 ^ 15 \<and>
                   \<bar>rf_resource_sensitivity f - 0.2375\<bar> \<le> 1 / 10 ^ 15 \<and>
                   \<bar>rf_time_risk f - 0.015\<bar> \<le> 1 / 10 ^ 15 \<and>
                   \<bar>fa_sum ar [rf_user_risk f, rf_device_risk f, rf_resource_sensitivity f,
                               rf_time_risk f] - 0.4025\<bar> \<le> 1 / 10 ^ 15 \<and>
                   \<bar>result_trust_score r - (1 - 0.4025)\<bar> \<le> 1 / 10 ^ 15)) \<and>
         (trust_score device = 0.5 \<longrightarrow>
            (\<exists>r. evaluate_zerotrust_access_float ar local_hour s request = Inr r \<and>
                 decision r = DENY \<and>
                 reason r = ''Insufficient device trust for sensitive resource''))"
proof -
  let ?R = "fa_round ar"
  have A: "\<bar>?R 0.3 - 0.3\<bar> \<le> 36 / 1000000000000000000"
    using float_literal [OF fa, of "0.3"] by simp
  have AA: "\<bar>?R 0.3 * ?R 0.3 - 0.09\<bar> \<le> 22 / 1000000000000000000"
    using product_near [OF A A, simplified] by simp
  have user: "\<bar>?R (?R 0.3 * ?R 0.3) - 0.09\<bar> \<le> 33 / 1000000000000000000"
    using float_round_near [OF fa AA] by simp
  have T: "\<bar>?R 0.8 - 0.8\<bar> \<le> 96 / 1000000000000000000"
    using float_literal [OF fa, of "0.8"] by simp
  have H: "\<bar>?R 0.5 - 0.5\<bar> \<le> 60 / 1000000000000000000"
    using float_literal [OF fa, of "0.5"] by simp
  have S: "\<bar>?R 0.95 - 0.95\<bar> \<le> 114 / 1000000000000000000"
    using float_literal [OF fa, of "0.95"] by simp
  have Q: "\<bar>?R 0.25 - 0.25\<bar> \<le> 30 / 1000000000000000000"
    using float_literal [OF fa, of "0.25"] by simp
  have SQ: "\<bar>?R 0.95 * ?R 0.25 - 0.2375\<bar> \<le> 58 / 1000000000000000000"
    using product_near [OF S Q, simplified] by simp
  have res: "\<bar>?R (?R 0.95 * ?R 0.25) - 0.2375\<bar> \<le> 87 / 1000000000000000000"
    using float_round_near [OF fa SQ] by simp
  have N: "\<bar>?R 0.9 - 0.9\<bar> \<le> 108 / 1000000000000000000"
    using float_literal [OF fa, of "0.9"] by simp
  have mN: "\<bar>(1 - ?R 0.9) - 0.1\<bar> \<le> 108 / 1000000000000000000"
    using N by (simp; argo?)
  have M: "\<bar>?R (1 - ?R 0.9) - 0.1\<bar> \<le> 121 / 1000000000000000000"
    using float_round_near [OF fa mN] by simp
  have F: "\<bar>?R 0.15 - 0.15\<bar> \<le> 18 / 1000000000000000000"
    using float_literal [OF fa, of "0.15"] by simp
  have MF: "\<bar>?R (1 - ?R 0.9) * ?R 0.15 - 0.015\<bar> \<le> 20 / 1000000000000000000"
    using product_near [OF M F, simplified] by simp
  have time: "\<bar>?R (?R (1 - ?R 0.9) * ?R 0.15) - 0.015\<bar> \<le> 22 / 1000000000000000000"
    using float_round_near [OF fa MF] by simp
  have mT: "\<bar>(1 - ?R 0.8) - 0.2\<bar> \<le> 96 / 1000000000000000000"
    using T by (simp; argo?)
  have D1: "\<bar>?R (1 - ?R 0.8) - 0.2\<bar> \<le> 121 / 1000000000000000000"
    using float_round_near [OF fa mT] by simp
  have DA: "\<bar>?R (1 - ?R 0.8) * ?R 0.3 - 0.06\<bar> \<le> 44 / 1000000000000000000"
    using product_near [OF D1 A, simplified] by simp
  have dev: "\<bar>?R (?R (1 - ?R 0.8) * ?R 0.3) - 0.06\<bar> \<le> 52 / 1000000000000000000"
    using float_round_near [OF fa DA] by simp
  let ?u = "?R (?R 0.3 * ?R 0.3)"
  let ?d = "?R (?R (1 - ?R 0.8) * ?R 0.3)"
  let ?r = "?R (?R 0.95 * ?R 0.25)"
  let ?t = "?R (?R (1 - ?R 0.9) * ?R 0.15)"
  let ?o = "fa_sum ar [?u, ?d, ?r, ?t]"
  have nn: "0 \<le> ?u \<and> 0 \<le> ?d \<and> 0 \<le> ?r \<and> 0 \<le> ?t"
    using user dev res time by (simp; argo?)
  from fa have sumall: "\<And>a b c d. 0 \<le> a \<and> 0 \<le> b \<and> 0 \<le> c \<and> 0 \<le> d \<Longrightarrow>
      \<bar>fa_sum ar [a, b, c, d] - (a + b + c + d)\<bar> \<le> (a + b + c + d) / 2 ^ 50"
    unfolding float_arith_def by blast
  from sumall [OF nn] have sum: "\<bar>?o - (?u + ?d + ?r + ?t)\<bar> \<le> (?u + ?d + ?r + ?t) / 1125899906842624"
    by simp
  have tot: "\<bar>(?u + ?d + ?r + ?t) - 0.4025\<bar> \<le> 194 / 1000000000000000000"
    using user dev res time by (simp; argo?)
  have ov: "\<bar>?o - 0.4025\<bar> \<le> 552 / 1000000000000000000"
    using sum tot by (simp; argo?)
  have mO: "\<bar>(1 - ?o) - 0.5975\<bar> \<le> 552 / 1000000000000000000"
    using ov by (simp; argo?)
  have trust: "\<bar>?R (1 - ?o) - 0.5975\<bar> \<le> 624 / 1000000000000000000"
    using float_round_near [OF fa mO] by simp
  have lt: "?o < ?R 0.5" using ov H by (simp; argo?)
  have gt: "?R 0.8 < ?R 0.95" using S T by (simp; argo?)
  have lt5: "?R 0.5 < ?R 0.8" using H T by (simp; argo?)
  have tr: "get_time_risk local_hour (timestamp request) = Inr 0.9"
    using h by (simp add: get_time_risk_def)
  have sens: "get_resource_sensitivity (resource request) = 0.95"
    by (simp add: rq get_resource_sensitivity_def sensitivity_map_def)
  note ev = evaluate_float_known [OF u d tr, of ar]
  have a: "\<exists>r f. evaluate_zerotrust_access_float ar local_hour s request = Inr r \<and>
                   risk_factors r = Some f \<and>
                   decision r = ALLOW \<and> reason r = ''Low risk profile - access granted'' \<and>
                   \<bar>rf_user_risk f - 0.09\<bar> \<le> 1 / 10 ^ 15 \<and>
                   \<bar>rf_device_risk f - 0.06\<bar> \<le> 1 / 10 ^ 15 \<and>
                   \<bar>rf_resource_sensitivity f - 0.2375\<bar> \<le> 1 / 10 ^ 15 \<and>
                   \<bar>rf_time_risk f - 0.015\<bar> \<le> 1 / 10 ^ 15 \<and>
                   \<bar>fa_sum ar [rf_user_risk f, rf_device_risk f, rf_resource_sensitivity f,
                               rf_time_risk f] - 0.4025\<bar> \<le> 1 / 10 ^ 15 \<and>
                   \<bar>result_trust_score r - (1 - 0.4025)\<bar> \<le> 1 / 10 ^ 15"
    if t8: "trust_score device = 0.8"
    using user dev res time ov trust lt gt dc ud
    by (simp add: ev ur t8 sens baseline_decision_float_def additional_checks_float_def)
  have b: "\<exists>r. evaluate_zerotrust_access_float ar local_hour s request = Inr r \<and>
                 decision r = DENY \<and>
                 reason r = ''Insufficient device trust for sensitive resource''"
    if t5: "trust_score device = 0.5"
    using gt lt5 dc
    by (simp add: ev ur t5 sens baseline_decision_float_def additional_checks_float_def)
  from a b show ?thesis by blast
qed

theorem finance_example_float_witness:
  "(\<exists>r f. evaluate_zerotrust_access_float binary64_arith utc_hour new_simulator
             (alice_request 1699963200) = Inr r \<and>
          risk_factors r = Some f \<and>
          decision r = ALLOW \<and> reason r = ''Low risk profile - access granted'' \<and>
          \<bar>rf_user_risk f - 0.09\<bar> \<le> 1 / 10 ^ 15 \<and>
          \<bar>rf_device_risk f - 0.06\<bar> \<le> 1 / 10 ^ 15 \<and>
          \<bar>rf_resource_sensitivity f - 0.2375\<bar> \<le> 1 / 10 ^ 15 \<and>
          \<bar>rf_time_risk f - 0.015\<bar> \<le> 1 / 10 ^ 15 \<and>
          \<bar>fa_sum binary64_arith [rf_user_risk f, rf_device_risk f, rf_resource_sensitivity f,
                                  rf_time_risk f] - 0.4025\<bar> \<le> 1 / 10 ^ 15 \<and>
          \<bar>result_trust_score r - (1 - 0.4025)\<bar> \<le> 1 / 10 ^ 15) \<and>
   (\<exists>r. evaluate_zerotrust_access_float binary64_arith utc_hour low_trust_simulator
             (alice_request 1699963200) = Inr r \<and>
        decision r = DENY \<and>
        reason r = ''Insufficient device trust for sensitive resource'')"
  using finance_example_float [OF binary64_float_arith, of new_simulator
          "alice_request 1699963200" _ _ utc_hour 12]
        finance_example_float [OF binary64_float_arith, of low_trust_simulator
          "alice_request 1699963200" _ _ utc_hour 12]
        alice_lookup ws_lookup alice_lookup_low ws_lookup_low utc_noon
  by (simp add: alice_request_def)

end
